theory Spec2Isabelle
  imports Main "HOL-Library.Multiset"
begin

section \<open>Errors\<close>

text \<open>
  Go errors are values. \<open>Error\<close> is an error produced by a collaborator outside the two
  source files, \<open>Panic\<close> a run-time panic. \<open>errors.AddStack\<close>, \<open>errors.Trace\<close> and
  \<open>errors.Annotatef\<close> (github.com/pingcap/errors) wrap a non-nil error with a stack trace
  or a message; they are kept as constructors, so that the wrapped error stays visible.
\<close>

datatype error =
    Error string
  | Panic string
  | AddStack error
  | Trace error
  | Annotatef error string string

section \<open>strconv.Itoa and strconv.Atoi\<close>

text \<open>
  The decimal conversions of Go's standard library, on the 64-bit \<open>int\<close> of the platforms
  the tool runs on. \<open>Itoa\<close> prints the digits most significant first, with a leading minus
  sign for a negative number.
\<close>

definition digit_char :: "nat \<Rightarrow> char" where
  "digit_char d = ''0123456789'' ! d"

function utoa :: "nat \<Rightarrow> string" where
  "utoa n = (if n < 10 then [digit_char n] else utoa (n div 10) @ [digit_char (n mod 10)])"
  by pat_completeness auto
termination
  by (relation "measure (\<lambda>n. n)") auto

definition Itoa :: "int \<Rightarrow> string" where
  "Itoa i = (if i < 0 then CHR ''-'' # utoa (nat (- i)) else utoa (nat i))"

text \<open>
  \<open>Atoi\<close> returns the value and an error. A syntax error (empty string, a sign with nothing
  after it, a character that is no decimal digit) returns 0; a value out of the range of
  \<open>int\<close> returns the nearest bound together with a range error.
\<close>

definition is_digit :: "char \<Rightarrow> bool" where
  "is_digit c = (48 \<le> (of_char c :: nat) \<and> (of_char c :: nat) \<le> 57)"

definition digit_val :: "char \<Rightarrow> nat" where
  "digit_val c = of_char c - 48"

fun decimal_acc :: "nat \<Rightarrow> string \<Rightarrow> nat" where
  "decimal_acc acc [] = acc"
| "decimal_acc acc (c # cs) = decimal_acc (acc * 10 + digit_val c) cs"

definition Atoi :: "string \<Rightarrow> int \<times> error option" where
  "Atoi s =
     (let neg = (s \<noteq> [] \<and> hd s = CHR ''-'');
          ds = (if s \<noteq> [] \<and> (hd s = CHR ''-'' \<or> hd s = CHR ''+'') then tl s else s)
      in if ds = [] \<or> \<not> list_all is_digit ds then (0, Some (Error ''invalid syntax''))
         else let un = int (decimal_acc 0 ds)
              in if \<not> neg \<and> un \<ge> 2 ^ 63 then (2 ^ 63 - 1, Some (Error ''value out of range''))
                 else if neg \<and> un > 2 ^ 63 then (- (2 ^ 63), Some (Error ''value out of range''))
                 else (if neg then - un else un, None))"

section \<open>Playground commands (components/playground/command.go)\<close>

subsection \<open>Data\<close>

type_synonym CommandType = string

definition ScaleInCommandType :: CommandType where
  "ScaleInCommandType = ''scale-in''"

definition ScaleOutCommandType :: CommandType where
  "ScaleOutCommandType = ''scale-out''"


definition RestartCommandType :: CommandType where
  "RestartCommandType = ''handleRestart''"

definition PartitionCommandType :: CommandType where
  "PartitionCommandType = ''handlePartition''"

text \<open>
  Modelled from the spec: \<open>instance.Config\<close> and \<open>bootOptions\<close> are declared outside the
  source files at hand. The per-kind instance configuration holds the desired count and
  host, config path and binary path, which are the fields command.go reads and binds to
  flags; the boot options hold one configuration per component kind.
\<close>

record Config =
  Num :: int
  Host :: string
  ConfigPath :: string
  BinPath :: string

record bootOptions =
  pd :: Config
  tikv :: Config
  pump :: Config
  tiflash :: Config
  tidb :: Config
  ticdc :: Config
  drainer :: Config

text \<open>The zero value of a Go struct: what a field holds when a literal leaves it out.\<close>

definition zero_Config :: Config where
  "zero_Config = \<lparr>Num = 0, Host = [], ConfigPath = [], BinPath = []\<rparr>"

record Command =
  CommandType :: CommandType
  PID :: int
  ComponentID :: string
  Config :: Config

subsection \<open>buildCommands\<close>

text \<open>The inner loop \<open>for i := 0; i < cmd.Num; i++\<close>, appending one command per round.\<close>

function buildCommands_inner ::
  "int \<Rightarrow> CommandType \<Rightarrow> string \<Rightarrow> Config \<Rightarrow> Command list \<Rightarrow> Command list" where
  "buildCommands_inner i tp kind cfg cmds =
     (if i < Num cfg
      then buildCommands_inner (i + 1) tp kind cfg
             (cmds @ [\<lparr>CommandType = tp, PID = 0, ComponentID = kind, Config = cfg\<rparr>])
      else cmds)"
  by pat_completeness auto
termination
  by (relation "measure (\<lambda>(i, tp, kind, cfg, cmds). nat (Num cfg - i))") auto

text \<open>The outer loop over the table of component kinds.\<close>

primrec buildCommands_outer ::
  "CommandType \<Rightarrow> (string \<times> Config) list \<Rightarrow> Command list \<Rightarrow> Command list" where
  "buildCommands_outer tp [] cmds = cmds"
| "buildCommands_outer tp (entry # rest) cmds =
     buildCommands_outer tp rest (buildCommands_inner 0 tp (fst entry) (snd entry) cmds)"

definition buildCommands :: "CommandType \<Rightarrow> bootOptions \<Rightarrow> Command list" where
  "buildCommands tp opt =
     buildCommands_outer tp
       [(''pd'', pd opt), (''tikv'', tikv opt), (''pump'', pump opt),
        (''tiflash'', tiflash opt), (''tidb'', tidb opt), (''ticdc'', ticdc opt),
        (''drainer'', drainer opt)] []"

subsection \<open>The dispatcher\<close>

text \<open>
  The control endpoint is outside the program. A response is what \<open>io.Copy\<close> makes of its
  body: the text that reaches the caller's output, and the error that ended the copy, if any.
  The effects of a run are recorded as a trace of events, oldest first; the endpoint answers
  a request as a function of the trace up to that request.
\<close>

record response =
  body :: string
  copy_err :: "error option"

datatype event =
    HttpPost string string
  | StdoutWrite string
  | BodyClose

record playground_env =
  targetTag :: "error + int"
  json_Marshal :: "Command \<Rightarrow> error + string"
  http_Post :: "event list \<Rightarrow> string \<Rightarrow> string \<Rightarrow> error + response"

definition command_url :: "string \<Rightarrow> string" where
  "command_url addr = ''http://'' @ addr @ ''/command''"

definition requestCommand ::
  "playground_env \<Rightarrow> Command \<Rightarrow> string \<Rightarrow> event list \<Rightarrow> (error + response) \<times> event list" where
  "requestCommand env cmd addr tr =
     (case json_Marshal env cmd of
        Inl e \<Rightarrow> (Inl (AddStack e), tr)
      | Inr data \<Rightarrow>
          (case http_Post env tr (command_url addr) data of
             Inl e \<Rightarrow> (Inl (AddStack e), tr @ [HttpPost (command_url addr) data])
           | Inr resp \<Rightarrow> (Inr resp, tr @ [HttpPost (command_url addr) data])))"

primrec sendCommandsAndPrintResult ::
  "playground_env \<Rightarrow> Command list \<Rightarrow> string \<Rightarrow> event list \<Rightarrow> error option \<times> event list" where
  "sendCommandsAndPrintResult env [] addr tr = (None, tr)"
| "sendCommandsAndPrintResult env (cmd # rest) addr tr =
     (case fst (requestCommand env cmd addr tr) of
        Inl e \<Rightarrow> (Some (AddStack e), snd (requestCommand env cmd addr tr))
      | Inr rc \<Rightarrow>
          (case copy_err rc of
             Some e \<Rightarrow>
               (Some (AddStack e),
                snd (requestCommand env cmd addr tr) @ [StdoutWrite (body rc), BodyClose])
           | None \<Rightarrow>
               sendCommandsAndPrintResult env rest addr
                 (snd (requestCommand env cmd addr tr) @ [StdoutWrite (body rc), BodyClose])))"

subsection \<open>The five operations\<close>

primrec scaleIn_loop :: "int list \<Rightarrow> Command list \<Rightarrow> Command list" where
  "scaleIn_loop [] cmds = cmds"
| "scaleIn_loop (pid # rest) cmds =
     scaleIn_loop rest
       (cmds @ [\<lparr>CommandType = ScaleInCommandType, PID = pid, ComponentID = [],
                 Config = zero_Config\<rparr>])"

definition scaleIn ::
  "playground_env \<Rightarrow> int list \<Rightarrow> event list \<Rightarrow> error option \<times> event list" where
  "scaleIn env pids tr =
     (case targetTag env of
        Inl e \<Rightarrow> (Some (AddStack e), tr)
      | Inr port \<Rightarrow>
          sendCommandsAndPrintResult env (scaleIn_loop pids []) (''127.0.0.1:'' @ Itoa port) tr)"

definition scaleOut ::
  "playground_env \<Rightarrow> string list \<Rightarrow> bootOptions \<Rightarrow> event list \<Rightarrow>
     (int \<times> error option) \<times> event list" where
  "scaleOut env args opt tr =
     (case targetTag env of
        Inl e \<Rightarrow> ((0, Some (AddStack e)), tr)
      | Inr port \<Rightarrow>
          (let cmds = buildCommands ScaleOutCommandType opt
           in if length cmds = 0 then ((0, None), tr)
              else ((int (length cmds),
                     fst (sendCommandsAndPrintResult env cmds (''127.0.0.1:'' @ Itoa port) tr)),
                    snd (sendCommandsAndPrintResult env cmds (''127.0.0.1:'' @ Itoa port) tr))))"



primrec partition_loop :: "string list \<Rightarrow> Command list \<Rightarrow> Command list" where
  "partition_loop [] cmds = cmds"
| "partition_loop (arg # rest) cmds =
     partition_loop rest
       (cmds @ [\<lparr>CommandType = PartitionCommandType, PID = fst (Atoi arg), ComponentID = [],
                 Config = zero_Config\<rparr>])"

definition partition ::
  "playground_env \<Rightarrow> string list \<Rightarrow> event list \<Rightarrow> error option \<times> event list" where
  "partition env args tr =
     (case targetTag env of
        Inl e \<Rightarrow> (Some e, tr)
      | Inr port \<Rightarrow>
          sendCommandsAndPrintResult env (partition_loop args []) (''127.0.0.1'' @ Itoa port) tr)"

primrec restart_loop :: "string list \<Rightarrow> Command list \<Rightarrow> Command list" where
  "restart_loop [] cmds = cmds"
| "restart_loop (arg # rest) cmds =
     restart_loop rest
       (cmds @ [\<lparr>CommandType = RestartCommandType, PID = fst (Atoi arg), ComponentID = [],
                 Config = zero_Config\<rparr>])"

definition restart ::
  "playground_env \<Rightarrow> string list \<Rightarrow> event list \<Rightarrow> error option \<times> event list" where
  "restart env args tr =
     (case targetTag env of
        Inl e \<Rightarrow> (Some e, tr)
      | Inr port \<Rightarrow>
          sendCommandsAndPrintResult env (restart_loop args []) (''127.0.0.1'' @ Itoa port) tr)"

subsection \<open>Reading commands and traces\<close>

text \<open>The request body of a command: what \<open>json.Marshal\<close> returned for it.\<close>

definition payload :: "playground_env \<Rightarrow> Command \<Rightarrow> string" where
  "payload env cmd = (case json_Marshal env cmd of Inl e \<Rightarrow> [] | Inr data \<Rightarrow> data)"

text \<open>One complete round trip: the request, the copy of the response body, the close.\<close>

definition round_trip :: "playground_env \<Rightarrow> string \<Rightarrow> Command \<Rightarrow> string \<Rightarrow> event list" where
  "round_trip env addr cmd b =
     [HttpPost (command_url addr) (payload env cmd), StdoutWrite b, BodyClose]"

text \<open>The complete round trips of some commands, given the response to each.\<close>

definition round_trips ::
  "playground_env \<Rightarrow> string \<Rightarrow> Command list \<Rightarrow> response list \<Rightarrow> event list" where
  "round_trips env addr cmds rcs = concat (map2 (round_trip env addr) cmds (map body rcs))"


text \<open>An endpoint on port 9527 that answers every request, and one that refuses them.\<close>

definition answering :: playground_env where
  "answering =
     \<lparr>targetTag = Inr 9527,
      json_Marshal = (\<lambda>c. Inr (CommandType c @ '' '' @ Itoa (PID c))),
      http_Post = (\<lambda>tr url data. Inr \<lparr>body = ''ok'', copy_err = None\<rparr>)\<rparr>"

definition refusing :: playground_env where
  "refusing =
     \<lparr>targetTag = Inr 9527,
      json_Marshal = (\<lambda>c. Inr (CommandType c @ '' '' @ Itoa (PID c))),
      http_Post = (\<lambda>tr url data. Inl (Error ''connection refused''))\<rparr>"

text \<open>Boot options asking for one pd and two tidb instances, and nothing else.\<close>

definition one_pd_two_tidb :: bootOptions where
  "one_pd_two_tidb =
     \<lparr>pd = zero_Config\<lparr>Num := 1\<rparr>, tikv = zero_Config, pump = zero_Config,
      tiflash = zero_Config, tidb = zero_Config\<lparr>Num := 2\<rparr>, ticdc = zero_Config,
      drainer = zero_Config\<rparr>"

section \<open>Semantic versions (golang.org/x/mod/semver)\<close>

text \<open>
  \<open>downloadIfMissing\<close> orders the installed versions with \<open>semver.Compare\<close> of the module
  \<open>golang.org/x/mod/semver\<close>, a dependency of the repository. The model follows that
  module: a version is the letter v, then up to three dot-separated numbers without
  leading zeros, then an optional pre-release and an optional build suffix. \<open>Compare\<close>
  reports no error: an invalid version compares lower than every valid one and equal to
  every other invalid one. Build suffixes do not take part in the comparison.
\<close>

record parsed =
  major :: string
  minor :: string
  patch :: string
  prerelease :: string
  build :: string

text \<open>Go compares strings byte by byte.\<close>

fun string_less :: "string \<Rightarrow> string \<Rightarrow> bool" where
  "string_less [] [] = False"
| "string_less [] (y # ys) = True"
| "string_less (x # xs) [] = False"
| "string_less (x # xs) (y # ys) =
     (if (of_char x :: nat) < of_char y then True
      else if (of_char y :: nat) < of_char x then False
      else string_less xs ys)"

definition slice :: "string \<Rightarrow> nat \<Rightarrow> nat \<Rightarrow> string" where
  "slice v a b = take (b - a) (drop a v)"

definition parseInt :: "string \<Rightarrow> (string \<times> string) option" where
  "parseInt v =
     (if v = [] then None
      else if \<not> is_digit (hd v) then None
      else let i = length (takeWhile is_digit v)
           in if hd v = CHR ''0'' \<and> i \<noteq> 1 then None else Some (take i v, drop i v))"

definition isIdentChar :: "char \<Rightarrow> bool" where
  "isIdentChar c =
     ((65 \<le> (of_char c :: nat) \<and> (of_char c :: nat) \<le> 90) \<or>
      (97 \<le> (of_char c :: nat) \<and> (of_char c :: nat) \<le> 122) \<or>
      is_digit c \<or> c = CHR ''-'')"

definition isNum :: "string \<Rightarrow> bool" where
  "isNum v = (length (takeWhile is_digit v) = length v)"

definition isBadNum :: "string \<Rightarrow> bool" where
  "isBadNum v =
     (length (takeWhile is_digit v) = length v \<and> length v > 1 \<and> hd v = CHR ''0'')"

text \<open>
  The scanning loops of \<open>parsePrerelease\<close> and \<open>parseBuild\<close>, with the position \<open>i\<close> and
  the start of the current identifier; \<open>None\<close> is the early return with \<open>ok = false\<close>.
\<close>

function parsePrerelease_loop :: "string \<Rightarrow> nat \<Rightarrow> nat \<Rightarrow> (nat \<times> nat) option" where
  "parsePrerelease_loop v i start =
     (if i < length v \<and> v ! i \<noteq> CHR ''+''
      then (if \<not> isIdentChar (v ! i) \<and> v ! i \<noteq> CHR ''.'' then None
            else if v ! i = CHR ''.''
                 then (if start = i \<or> isBadNum (slice v start i) then None
                       else parsePrerelease_loop v (i + 1) (i + 1))
                 else parsePrerelease_loop v (i + 1) start)
      else Some (i, start))"
  by pat_completeness auto
termination
  by (relation "measure (\<lambda>(v, i, start). length v - i)") auto

definition parsePrerelease :: "string \<Rightarrow> (string \<times> string) option" where
  "parsePrerelease v =
     (if v = [] \<or> hd v \<noteq> CHR ''-'' then None
      else case parsePrerelease_loop v 1 1 of
             None \<Rightarrow> None
           | Some r \<Rightarrow>
               if snd r = fst r \<or> isBadNum (slice v (snd r) (fst r)) then None
               else Some (take (fst r) v, drop (fst r) v))"

function parseBuild_loop :: "string \<Rightarrow> nat \<Rightarrow> nat \<Rightarrow> (nat \<times> nat) option" where
  "parseBuild_loop v i start =
     (if i < length v
      then (if \<not> isIdentChar (v ! i) \<and> v ! i \<noteq> CHR ''.'' then None
            else if v ! i = CHR ''.''
                 then (if start = i then None else parseBuild_loop v (i + 1) (i + 1))
                 else parseBuild_loop v (i + 1) start)
      else Some (i, start))"
  by pat_completeness auto
termination
  by (relation "measure (\<lambda>(v, i, start). length v - i)") auto

definition parseBuild :: "string \<Rightarrow> (string \<times> string) option" where
  "parseBuild v =
     (if v = [] \<or> hd v \<noteq> CHR ''+'' then None
      else case parseBuild_loop v 1 1 of
             None \<Rightarrow> None
           | Some r \<Rightarrow> if snd r = fst r then None else Some (take (fst r) v, drop (fst r) v))"

text \<open>The tail of \<open>parse\<close>, after the patch number: pre-release, build, and nothing else.\<close>

definition parse_suffix :: "string \<Rightarrow> string \<Rightarrow> string \<Rightarrow> string \<Rightarrow> parsed option" where
  "parse_suffix ma mi pa v =
     (case (if v \<noteq> [] \<and> hd v = CHR ''-'' then parsePrerelease v else Some ([], v)) of
        None \<Rightarrow> None
      | Some pr \<Rightarrow>
          (case (if snd pr \<noteq> [] \<and> hd (snd pr) = CHR ''+'' then parseBuild (snd pr)
                 else Some ([], snd pr)) of
             None \<Rightarrow> None
           | Some bu \<Rightarrow>
               if snd bu \<noteq> [] then None
               else Some \<lparr>major = ma, minor = mi, patch = pa, prerelease = fst pr,
                          build = fst bu\<rparr>))"

definition parse :: "string \<Rightarrow> parsed option" where
  "parse v =
     (if v = [] \<or> hd v \<noteq> CHR ''v'' then None
      else case parseInt (tl v) of
        None \<Rightarrow> None
      | Some ma \<Rightarrow>
          if snd ma = [] then
            Some \<lparr>major = fst ma, minor = ''0'', patch = ''0'', prerelease = [], build = []\<rparr>
          else if hd (snd ma) \<noteq> CHR ''.'' then None
          else case parseInt (tl (snd ma)) of
            None \<Rightarrow> None
          | Some mi \<Rightarrow>
              if snd mi = [] then
                Some \<lparr>major = fst ma, minor = fst mi, patch = ''0'', prerelease = [],
                      build = []\<rparr>
              else if hd (snd mi) \<noteq> CHR ''.'' then None
              else case parseInt (tl (snd mi)) of
                None \<Rightarrow> None
              | Some pa \<Rightarrow> parse_suffix (fst ma) (fst mi) (fst pa) (snd pa))"

definition IsValid :: "string \<Rightarrow> bool" where
  "IsValid v = (parse v \<noteq> None)"

definition compareInt :: "string \<Rightarrow> string \<Rightarrow> int" where
  "compareInt x y =
     (if x = y then 0
      else if length x < length y then - 1
      else if length x > length y then 1
      else if string_less x y then - 1 else 1)"

definition nextIdent :: "string \<Rightarrow> string \<times> string" where
  "nextIdent x = (takeWhile (\<lambda>c. c \<noteq> CHR ''.'') x, dropWhile (\<lambda>c. c \<noteq> CHR ''.'') x)"

definition compareIdent :: "string \<Rightarrow> string \<Rightarrow> int" where
  "compareIdent dx dy =
     (if isNum dx \<noteq> isNum dy then (if isNum dx then - 1 else 1)
      else if isNum dx \<and> length dx < length dy then - 1
      else if isNum dx \<and> length dx > length dy then 1
      else if string_less dx dy then - 1 else 1)"

function comparePrerelease_loop :: "string \<Rightarrow> string \<Rightarrow> int" where
  "comparePrerelease_loop x y =
     (if x \<noteq> [] \<and> y \<noteq> []
      then (if fst (nextIdent (tl x)) \<noteq> fst (nextIdent (tl y))
            then compareIdent (fst (nextIdent (tl x))) (fst (nextIdent (tl y)))
            else comparePrerelease_loop (snd (nextIdent (tl x))) (snd (nextIdent (tl y))))
      else (if x = [] then - 1 else 1))"
  by pat_completeness auto
termination
proof (relation "measure (\<lambda>(x, y). length x)")
  show "wf (measure (\<lambda>(x, y). length x))" by simp
next
  fix x y :: string
  assume "x \<noteq> [] \<and> y \<noteq> []"
  then have "length (tl x) < length x" by (cases x) simp_all
  moreover have "length (dropWhile (\<lambda>c. c \<noteq> CHR ''.'') (tl x)) \<le> length (tl x)"
    by (rule length_dropWhile_le)
  ultimately show "((snd (nextIdent (tl x)), snd (nextIdent (tl y))), (x, y))
      \<in> measure (\<lambda>(x, y). length x)"
    by (simp add: nextIdent_def)
qed

definition comparePrerelease :: "string \<Rightarrow> string \<Rightarrow> int" where
  "comparePrerelease x y =
     (if x = y then 0
      else if x = [] then 1
      else if y = [] then - 1
      else comparePrerelease_loop x y)"

definition Compare :: "string \<Rightarrow> string \<Rightarrow> int" where
  "Compare v w =
     (case (parse v, parse w) of
        (None, None) \<Rightarrow> 0
      | (None, Some pw) \<Rightarrow> - 1
      | (Some pv, None) \<Rightarrow> 1
      | (Some pv, Some pw) \<Rightarrow>
          if compareInt (major pv) (major pw) \<noteq> 0 then compareInt (major pv) (major pw)
          else if compareInt (minor pv) (minor pw) \<noteq> 0 then compareInt (minor pv) (minor pw)
          else if compareInt (patch pv) (patch pw) \<noteq> 0 then compareInt (patch pv) (patch pw)
          else comparePrerelease (prerelease pv) (prerelease pw))"

section \<open>The run command (cmd/run.go)\<close>

subsection \<open>Data\<close>

text \<open>
  Modelled from the spec: \<open>meta.Version\<close> and the per-component version manifest are
  declared outside the source files at hand. A version is a string, the empty string
  meaning "unspecified"; the manifest is the remote catalog of one component, an ordered
  list of versions with a designated latest version.
\<close>

definition IsEmpty :: "string \<Rightarrow> bool" where
  "IsEmpty v = (v = [])"

record VersionManifest =
  Versions :: "string list"
  Latest :: string

definition LatestVersion :: "VersionManifest \<Rightarrow> string" where
  "LatestVersion m = Latest m"

text \<open>
  Modelled from the spec: the component manifest (local or remote) answers
  \<open>HasComponent\<close>; it is kept as the list of the component names it knows.
\<close>

type_synonym Manifest = "string list"

definition HasComponent :: "Manifest \<Rightarrow> string \<Rightarrow> bool" where
  "HasComponent m c = (c \<in> set m)"

record process =
  Component :: string
  CreatedTime :: string
  Pid :: int
  Exec :: string
  Args :: "string list"
  Env :: "string list"
  Dir :: string

datatype signal = SIGINT | SIGKILL | SIGTERM | SIGQUIT

text \<open>The two observers of the \<open>select\<close> statement: the one that fires first decides.\<close>

datatype race_outcome = SignalFirst signal | ExitFirst "error option"

text \<open>
  The cancellable context of \<open>context.WithCancel\<close>. A command built with
  \<open>exec.CommandContext\<close> is bound to it: \<open>Start\<close> refuses to spawn once the context is
  done, and while the child runs a goroutine of os/exec waits for the context and calls
  \<open>Process.Kill\<close>, which sends SIGKILL, when the context becomes done before \<open>Wait\<close> has
  returned.
\<close>

datatype ctx = Active | Canceled

text \<open>
  Calls to the collaborators, in the order the run makes them. \<open>ContextKill\<close> is the
  SIGKILL that os/exec sends to the child of a cancelled context.
\<close>

datatype revent =
    CallInstalledVersions string
  | CallComponentVersions string
  | CallSaveVersions string VersionManifest
  | CallDownloadComponent string string
  | CallBinaryPath string string
  | CallMkdirAll string
  | CallStart string "string list" "string list" string
  | CallOpenFile string
  | CallEncode string process
  | CallKill int signal
  | ContextKill int

text \<open>
  The collaborators: local storage and remote repository, the operating system, the
  command-line framework. A run consults each of them at most once, so each answer is
  given as a function of the call's arguments. \<open>sort_Slice\<close> is \<open>sort.Slice\<close> of the
  standard library, whose order among equal elements is not specified. \<open>watcher_runs\<close>
  says whether the goroutine of os/exec that watches the context gets to run between the
  cancellation and the end of the program.
\<close>

record store_env =
  InstalledVersions :: "string \<Rightarrow> error + string list"
  sort_Slice :: "(string \<Rightarrow> string \<Rightarrow> bool) \<Rightarrow> string list \<Rightarrow> string list"
  ComponentVersions :: "string \<Rightarrow> error + VersionManifest"
  SaveVersions :: "string \<Rightarrow> VersionManifest \<Rightarrow> error option"
  ComponentsDir :: string
  DownloadComponent :: "string \<Rightarrow> string \<Rightarrow> error option"
  BinaryPath :: "string \<Rightarrow> string \<Rightarrow> error + string"

record os_env =
  Getenv :: "string \<Rightarrow> string"
  Environ :: "string list"
  UnixNano :: int
  Now_RFC3339 :: string
  profile_Root :: string
  profile_Path :: "string \<Rightarrow> string"
  filepath_Join :: "string \<Rightarrow> string \<Rightarrow> string"
  EnvNameHome :: string
  EnvNameInstanceDataDir :: string
  DataParentDir :: string
  MetaFilename :: string
  MkdirAll :: "string \<Rightarrow> error option"
  cmd_Start :: "string \<Rightarrow> string list \<Rightarrow> string list \<Rightarrow> string \<Rightarrow> error option \<times> int option"
  OpenFile :: "string \<Rightarrow> error option"
  Encode :: "string \<Rightarrow> process \<Rightarrow> error option"
  race :: race_outcome
  Kill :: "int \<Rightarrow> signal \<Rightarrow> error option"
  watcher_runs :: bool

record cli_env =
  Help :: "error option"
  ParseCompVersion :: "string \<Rightarrow> string \<times> string"
  profile_Manifest :: "Manifest option"
  repository_Manifest :: "error + Manifest"
  SaveManifest :: "Manifest \<Rightarrow> error option"

subsection \<open>base62Name\<close>

text \<open>
  \<open>float64(num)\<close> rounds a 64-bit integer to 53 significant bits, ties to even; for a
  non-negative \<open>num\<close> below \<open>2 ^ 63\<close> the result is again an integer. \<open>math.Mod\<close> is exact
  and takes the sign of its first argument; \<open>int(r)\<close> of an integral \<open>r\<close> is \<open>r\<close>.
\<close>

definition sets :: string where
  "sets = ''0123456789ABCDEFGHIJKLMNOPQRSTUVWXYZabcdefghijklmnopqrstuvwxyz''"

function shift_count :: "int \<Rightarrow> nat" where
  "shift_count n = (if n < 2 ^ 53 then 0 else Suc (shift_count (n div 2)))"
  by pat_completeness auto
termination
  by (relation "measure (\<lambda>n. nat n)") auto

definition float64 :: "int \<Rightarrow> int" where
  "float64 n =
     (if n < 2 ^ 53 then n
      else let e = shift_count n; q = n div 2 ^ e; r = n mod 2 ^ e; h = 2 ^ (e - 1)
           in if r > h \<or> (r = h \<and> odd q) then (q + 1) * 2 ^ e else q * 2 ^ e)"

definition math_Mod :: "int \<Rightarrow> int \<Rightarrow> int" where
  "math_Mod x y = (if 0 \<le> x then x mod y else - ((- x) mod y))"

text \<open>
  The loop of \<open>base62Name\<close>. Inside the loop \<open>num\<close> is positive, where Go's truncating
  division is \<open>div\<close>. An index outside the alphabet is a panic: \<open>None\<close>.
\<close>

function base62Name_loop :: "int \<Rightarrow> string \<Rightarrow> string option" where
  "base62Name_loop num b =
     (if num > 0
      then (let r = math_Mod (float64 num) 62
            in if 0 \<le> r \<and> nat r < length sets
               then base62Name_loop (num div 62) (sets ! nat r # b)
               else None)
      else Some b)"
  by pat_completeness auto
termination
  by (relation "measure (\<lambda>(num, b). nat num)") auto

definition base62Name :: "int \<Rightarrow> string option" where
  "base62Name now = base62Name_loop now []"

subsection \<open>downloadIfMissing\<close>

definition semver_less :: "string \<Rightarrow> string \<Rightarrow> bool" where
  "semver_less a b = (Compare a b < 0)"

text \<open>
  Lines 218 to 223: with no requested version and something installed, sort the installed
  versions in place and take the last one. The result is the list as it is afterwards and
  the version; reading the last element of an empty list would be a panic.
\<close>

definition pick_latest ::
  "store_env \<Rightarrow> string list \<Rightarrow> string \<Rightarrow> error + (string list \<times> string)" where
  "pick_latest st versions version =
     (if IsEmpty version \<and> length versions > 0
      then (let sorted = sort_Slice st semver_less versions
            in if sorted = [] then Inl (Panic ''index out of range'')
               else Inr (sorted, sorted ! (length sorted - 1)))
      else Inr (versions, version))"

text \<open>Lines 225 to 235: the search for the version among the installed ones.\<close>

primrec installed_loop :: "string list \<Rightarrow> string \<Rightarrow> bool" where
  "installed_loop [] version = False"
| "installed_loop (v # vs) version = (if v = version then True else installed_loop vs version)"

definition needDownload :: "string list \<Rightarrow> string \<Rightarrow> bool" where
  "needDownload versions version =
     (if \<not> IsEmpty version then \<not> installed_loop versions version else IsEmpty version)"

text \<open>Lines 237 to 258, when a download is needed.\<close>

definition fetch ::
  "store_env \<Rightarrow> string \<Rightarrow> string \<Rightarrow> revent list \<Rightarrow> (error + string) \<times> revent list" where
  "fetch st component version tr =
     (case ComponentVersions st component of
        Inl e \<Rightarrow> (Inl (Trace e), tr @ [CallComponentVersions component])
      | Inr manifest \<Rightarrow>
          (case SaveVersions st component manifest of
             Some e \<Rightarrow>
               (Inl (Trace e),
                tr @ [CallComponentVersions component, CallSaveVersions component manifest])
           | None \<Rightarrow>
               (let version2 = (if IsEmpty version then LatestVersion manifest else version);
                    spec = component @ '':'' @ version2
                in case DownloadComponent st (ComponentsDir st) spec of
                     Some e \<Rightarrow>
                       (Inl (Trace e),
                        tr @ [CallComponentVersions component,
                              CallSaveVersions component manifest,
                              CallDownloadComponent (ComponentsDir st) spec])
                   | None \<Rightarrow>
                       (BinaryPath st component version2,
                        tr @ [CallComponentVersions component,
                              CallSaveVersions component manifest,
                              CallDownloadComponent (ComponentsDir st) spec,
                              CallBinaryPath component version2]))))"

definition downloadIfMissing ::
  "store_env \<Rightarrow> string \<Rightarrow> string \<Rightarrow> revent list \<Rightarrow> (error + string) \<times> revent list" where
  "downloadIfMissing st component version tr =
     (case InstalledVersions st component of
        Inl e \<Rightarrow> (Inl e, tr @ [CallInstalledVersions component])
      | Inr versions \<Rightarrow>
          (case pick_latest st versions version of
             Inl e \<Rightarrow> (Inl e, tr @ [CallInstalledVersions component])
           | Inr vv \<Rightarrow>
               if needDownload (fst vv) (snd vv)
               then fetch st component (snd vv) (tr @ [CallInstalledVersions component])
               else (BinaryPath st component (snd vv),
                     tr @ [CallInstalledVersions component,
                           CallBinaryPath component (snd vv)])))"

text \<open>How many download requests a trace holds, and how many calls to the repository.\<close>

primrec is_download :: "revent \<Rightarrow> bool" where
  "is_download (CallInstalledVersions c) = False"
| "is_download (CallComponentVersions c) = False"
| "is_download (CallSaveVersions c m) = False"
| "is_download (CallDownloadComponent d s) = True"
| "is_download (CallBinaryPath c v) = False"
| "is_download (CallMkdirAll d) = False"
| "is_download (CallStart b a e d) = False"
| "is_download (CallOpenFile f) = False"
| "is_download (CallEncode f p) = False"
| "is_download (CallKill p s) = False"
| "is_download (ContextKill p) = False"

primrec is_network :: "revent \<Rightarrow> bool" where
  "is_network (CallInstalledVersions c) = False"
| "is_network (CallComponentVersions c) = True"
| "is_network (CallSaveVersions c m) = False"
| "is_network (CallDownloadComponent d s) = True"
| "is_network (CallBinaryPath c v) = False"
| "is_network (CallMkdirAll d) = False"
| "is_network (CallStart b a e d) = False"
| "is_network (CallOpenFile f) = False"
| "is_network (CallEncode f p) = False"
| "is_network (CallKill p s) = False"
| "is_network (ContextKill p) = False"


primrec is_persist :: "revent \<Rightarrow> bool" where
  "is_persist (CallInstalledVersions c) = False"
| "is_persist (CallComponentVersions c) = False"
| "is_persist (CallSaveVersions c m) = False"
| "is_persist (CallDownloadComponent d s) = False"
| "is_persist (CallBinaryPath c v) = False"
| "is_persist (CallMkdirAll d) = False"
| "is_persist (CallStart b a e d) = False"
| "is_persist (CallOpenFile f) = True"
| "is_persist (CallEncode f p) = True"
| "is_persist (CallKill p s) = False"
| "is_persist (ContextKill p) = False"

subsection \<open>launchComponent\<close>

text \<open>The choice of the working directory, lines 163 to 170; \<open>None\<close> is a panic.\<close>

definition working_dir :: "os_env \<Rightarrow> string \<Rightarrow> string option" where
  "working_dir os name =
     (if Getenv os (EnvNameInstanceDataDir os) \<noteq> [] then Some (Getenv os (EnvNameInstanceDataDir os))
      else case (if name = [] then base62Name (UnixNano os) else Some name) of
             None \<Rightarrow> None
           | Some name2 \<Rightarrow> Some (profile_Path os (filepath_Join os (DataParentDir os) name2)))"

definition overlay :: "os_env \<Rightarrow> string \<Rightarrow> string list" where
  "overlay os wd =
     [EnvNameHome os @ ''='' @ profile_Root os, EnvNameInstanceDataDir os @ ''='' @ wd]"

text \<open>
  \<open>Start\<close> of a command bound to a context, line 201: a context that is already done
  prevents the spawn.
\<close>

definition start_under ::
  "os_env \<Rightarrow> ctx \<Rightarrow> string \<Rightarrow> string list \<Rightarrow> string list \<Rightarrow> string \<Rightarrow>
     error option \<times> int option" where
  "start_under os ctx binPath args env wd =
     (case ctx of
        Canceled \<Rightarrow> (Some (Error ''context canceled''), None)
      | Active \<Rightarrow> cmd_Start os binPath args env wd)"

definition launchComponent ::
  "store_env \<Rightarrow> os_env \<Rightarrow> ctx \<Rightarrow> string \<Rightarrow> string \<Rightarrow> string \<Rightarrow> string list \<Rightarrow>
     revent list \<Rightarrow> (process option \<times> error option) \<times> revent list" where
  "launchComponent st os ctx component version name args tr =
     (case fst (downloadIfMissing st component version tr) of
        Inl e \<Rightarrow> ((None, Some e), snd (downloadIfMissing st component version tr))
      | Inr binPath \<Rightarrow>
          (case working_dir os name of
             None \<Rightarrow>
               ((None, Some (Panic ''index out of range'')),
                snd (downloadIfMissing st component version tr))
           | Some wd \<Rightarrow>
               (case MkdirAll os wd of
                  Some e \<Rightarrow>
                    ((None, Some e),
                     snd (downloadIfMissing st component version tr) @ [CallMkdirAll wd])
                | None \<Rightarrow>
                    ((Some \<lparr>Component = component, CreatedTime = Now_RFC3339 os,
                            Pid = (case snd (start_under os ctx binPath args
                                               (Environ os @ overlay os wd) wd) of
                                     None \<Rightarrow> 0 | Some pid \<Rightarrow> pid),
                            Exec = binPath, Args = args, Env = overlay os wd, Dir = wd\<rparr>,
                      fst (start_under os ctx binPath args (Environ os @ overlay os wd) wd)),
                     snd (downloadIfMissing st component version tr) @
                       [CallMkdirAll wd,
                        CallStart binPath args (Environ os @ overlay os wd) wd]))))"

subsection \<open>The command itself\<close>

definition isSupportedComponent :: "cli_env \<Rightarrow> string \<Rightarrow> bool" where
  "isSupportedComponent cli component =
     (if (case profile_Manifest cli of None \<Rightarrow> False | Some m \<Rightarrow> HasComponent m component)
      then True
      else case repository_Manifest cli of
             Inl e \<Rightarrow> False
           | Inr m \<Rightarrow> HasComponent m component)"

text \<open>
  Lines 71 to 80: the metadata file is written when the launch succeeded or left a
  process id. Neither the error of \<open>os.OpenFile\<close> nor that of \<open>Encode\<close> leaves the block.
\<close>

definition save_meta :: "os_env \<Rightarrow> process \<Rightarrow> revent list \<Rightarrow> revent list" where
  "save_meta os p tr =
     (case OpenFile os (filepath_Join os (Dir p) (MetaFilename os)) of
        Some e \<Rightarrow> tr @ [CallOpenFile (filepath_Join os (Dir p) (MetaFilename os))]
      | None \<Rightarrow>
          tr @ [CallOpenFile (filepath_Join os (Dir p) (MetaFilename os)),
                CallEncode (filepath_Join os (Dir p) (MetaFilename os)) p])"

text \<open>Lines 86 to 107: the race between the signal and the exit of the child.\<close>

definition supervise ::
  "os_env \<Rightarrow> string \<Rightarrow> process \<Rightarrow> revent list \<Rightarrow> error option \<times> revent list" where
  "supervise os component p tr =
     (case race os of
        SignalFirst s \<Rightarrow>
          (if component = ''tidb''
           then (Kill os (Pid p) SIGKILL, tr @ [CallKill (Pid p) SIGKILL])
           else (Kill os (Pid p) s, tr @ [CallKill (Pid p) s]))
      | ExitFirst werr \<Rightarrow>
          (case werr of
             None \<Rightarrow> (None, tr)
           | Some e \<Rightarrow> (Some (Annotatef e (Exec p) (Dir p)), tr)))"

text \<open>
  Lines 69 to 107, after the component and the version are known. A launch that returns
  neither a process nor an error does not occur; there the dereference of \<open>p\<close> would be
  a panic.
\<close>

definition launch_and_wait ::
  "store_env \<Rightarrow> os_env \<Rightarrow> ctx \<Rightarrow> string \<Rightarrow> string \<Rightarrow> string \<Rightarrow> string list \<Rightarrow>
     revent list \<Rightarrow> error option \<times> revent list" where
  "launch_and_wait st os ctx component version name args tr =
     (case fst (launchComponent st os ctx component version name args tr) of
        (None, None) \<Rightarrow>
          (Some (Panic ''nil pointer dereference''),
           snd (launchComponent st os ctx component version name args tr))
      | (None, Some e) \<Rightarrow>
          (Some e, snd (launchComponent st os ctx component version name args tr))
      | (Some p, Some e) \<Rightarrow>
          (Some e,
           if Pid p \<noteq> 0
           then save_meta os p (snd (launchComponent st os ctx component version name args tr))
           else snd (launchComponent st os ctx component version name args tr))
      | (Some p, None) \<Rightarrow>
          supervise os component p
            (save_meta os p (snd (launchComponent st os ctx component version name args tr))))"

text \<open>
  Lines 66 and 67: the context is created before the launch and \<open>cancel\<close> is deferred,
  so it runs when the command returns, on every path after line 66. At that moment the
  child is still running under the context exactly when it was started and the
  \<open>select\<close> took the signal branch: \<open>Wait\<close> has not returned then. Its process id:
\<close>

definition unwaited_child :: "os_env \<Rightarrow> process option \<times> error option \<Rightarrow> int option" where
  "unwaited_child os launched =
     (case launched of
        (Some p, None) \<Rightarrow>
          (case race os of SignalFirst s \<Rightarrow> Some (Pid p) | ExitFirst werr \<Rightarrow> None)
      | (Some p, Some e) \<Rightarrow> None
      | (None, err) \<Rightarrow> None)"

definition cancel :: "os_env \<Rightarrow> int option \<Rightarrow> revent list \<Rightarrow> revent list" where
  "cancel os child tr =
     (case child of
        None \<Rightarrow> tr
      | Some pid \<Rightarrow> if watcher_runs os then tr @ [ContextKill pid] else tr)"

definition RunE ::
  "cli_env \<Rightarrow> store_env \<Rightarrow> os_env \<Rightarrow> string \<Rightarrow> string list \<Rightarrow> revent list \<Rightarrow>
     error option \<times> revent list" where
  "RunE cli st os name args tr =
     (if length args = 0 then (Help cli, tr)
      else if \<not> isSupportedComponent cli (fst (ParseCompVersion cli (hd args)))
      then (Some (Error (''unkonwn component `'' @ fst (ParseCompVersion cli (hd args)) @
                    ''` (see supported components via `tiup list --refresh`)'')), tr)
      else (fst (launch_and_wait st os Active (fst (ParseCompVersion cli (hd args)))
                   (snd (ParseCompVersion cli (hd args))) name (tl args) tr),
            cancel os
              (unwaited_child os
                 (fst (launchComponent st os Active (fst (ParseCompVersion cli (hd args)))
                         (snd (ParseCompVersion cli (hd args))) name (tl args) tr)))
              (snd (launch_and_wait st os Active (fst (ParseCompVersion cli (hd args)))
                      (snd (ParseCompVersion cli (hd args))) name (tl args) tr))))"

subsection \<open>Environments for concrete runs\<close>

text \<open>
  An insertion sort, one of the orders \<open>sort.Slice\<close> may produce; a local store with a
  given list of installed versions, whose repository serves version v5.2.0 as the latest;
  an operating system in which every call succeeds, the child gets process id 4242 and a
  SIGTERM arrives before the child exits, and the program ends before the watcher of
  the context runs; a command line that splits its first argument at the colon.
\<close>

primrec insert_by :: "('a \<Rightarrow> 'a \<Rightarrow> bool) \<Rightarrow> 'a \<Rightarrow> 'a list \<Rightarrow> 'a list" where
  "insert_by lt x [] = [x]"
| "insert_by lt x (y # ys) = (if lt x y then x # y # ys else y # insert_by lt x ys)"

primrec insertion_sort :: "('a \<Rightarrow> 'a \<Rightarrow> bool) \<Rightarrow> 'a list \<Rightarrow> 'a list" where
  "insertion_sort lt [] = []"
| "insertion_sort lt (x # xs) = insert_by lt x (insertion_sort lt xs)"

definition store_with :: "string list \<Rightarrow> store_env" where
  "store_with vs =
     \<lparr>InstalledVersions = (\<lambda>c. Inr vs),
      sort_Slice = insertion_sort,
      ComponentVersions =
        (\<lambda>c. Inr \<lparr>Versions = [''v5.0.0'', ''v5.1.0'', ''v5.2.0''], Latest = ''v5.2.0''\<rparr>),
      SaveVersions = (\<lambda>c m. None),
      ComponentsDir = ''/tiup/components'',
      DownloadComponent = (\<lambda>d s. None),
      BinaryPath = (\<lambda>c v. Inr (''/tiup/components/'' @ c @ ''/'' @ v @ ''/'' @ c))\<rparr>"

definition quiet_os :: os_env where
  "quiet_os =
     \<lparr>Getenv = (\<lambda>k. []),
      Environ = [''PATH=/usr/bin''],
      UnixNano = 1604094505123456789,
      Now_RFC3339 = ''2020-10-30T22:08:25Z'',
      profile_Root = ''/tiup'',
      profile_Path = (\<lambda>p. ''/tiup/'' @ p),
      filepath_Join = (\<lambda>a b. a @ ''/'' @ b),
      EnvNameHome = ''TIUP_HOME'',
      EnvNameInstanceDataDir = ''TIUP_INSTANCE_DATA_DIR'',
      DataParentDir = ''data'',
      MetaFilename = ''tiup_process_meta'',
      MkdirAll = (\<lambda>d. None),
      cmd_Start = (\<lambda>b a e d. (None, Some 4242)),
      OpenFile = (\<lambda>f. None),
      Encode = (\<lambda>f p. None),
      race = SignalFirst SIGTERM,
      Kill = (\<lambda>p s. None),
      watcher_runs = False\<rparr>"

definition colon_cli :: cli_env where
  "colon_cli =
     \<lparr>Help = None,
      ParseCompVersion =
        (\<lambda>s. (takeWhile (\<lambda>c. c \<noteq> CHR '':'') s, drop 1 (dropWhile (\<lambda>c. c \<noteq> CHR '':'') s))),
      profile_Manifest = Some [''tidb'', ''tikv'', ''pd''],
      repository_Manifest = Inr [''tidb'', ''tikv'', ''pd''],
      SaveManifest = (\<lambda>m. None)\<rparr>"

text \<open>
  Variations: a repository that cannot be reached, a local store that cannot save the
  catalog, a child that fails to start (with the
  process id the operating system reports, if any), a disk on which the metadata file
  cannot be opened, a child that exits with an error before any signal arrives, and a
  program in which the watcher of the context runs in time.
\<close>

definition unreachable :: "store_env \<Rightarrow> store_env" where
  "unreachable st = st\<lparr>ComponentVersions := (\<lambda>c. Inl (Error ''no route to host''))\<rparr>"

definition cannot_save :: "store_env \<Rightarrow> store_env" where
  "cannot_save st = st\<lparr>SaveVersions := (\<lambda>c m. Some (Error ''no space left on device''))\<rparr>"

definition start_fails :: "int option \<Rightarrow> os_env \<Rightarrow> os_env" where
  "start_fails pid os = os\<lparr>cmd_Start := (\<lambda>b a e d. (Some (Error ''exec format error''), pid))\<rparr>"

definition read_only :: "os_env \<Rightarrow> os_env" where
  "read_only os = os\<lparr>OpenFile := (\<lambda>f. Some (Error ''read-only file system''))\<rparr>"

definition child_exits :: "error option \<Rightarrow> os_env \<Rightarrow> os_env" where
  "child_exits e os = os\<lparr>race := ExitFirst e\<rparr>"


section \<open>Properties of the playground commands\<close>

subsection \<open>Conversions on the numbers used below\<close>

lemma Itoa_9527: "Itoa 9527 = ''9527''"
  by (simp add: Itoa_def digit_char_def)

lemma Itoa_111: "Itoa 111 = ''111''"
  by (simp add: Itoa_def digit_char_def)

lemma Itoa_222: "Itoa 222 = ''222''"
  by (simp add: Itoa_def digit_char_def)

lemma Atoi_111: "Atoi ''111'' = (111, None)"
  by (simp add: Atoi_def is_digit_def digit_val_def)


subsection \<open>The loops that build commands\<close>




lemma buildCommands_inner_replicate:
  "buildCommands_inner i tp kind cfg cmds =
     cmds @ replicate (nat (Num cfg - i)) \<lparr>CommandType = tp, PID = 0, ComponentID = kind, Config = cfg\<rparr>"
proof (induction i tp kind cfg cmds rule: buildCommands_inner.induct)
  case (1 i tp kind cfg cmds)
  show ?case
  proof (cases "i < Num cfg")
    case True
    then have "nat (Num cfg - i) = Suc (nat (Num cfg - (i + 1)))" by simp
    with True "1" show ?thesis
      by (simp add: replicate_append_same del: buildCommands_inner.simps add: buildCommands_inner.simps [of i])
  next
    case False
    then show ?thesis by simp
  qed
qed

lemma buildCommands_outer_concat:
  "buildCommands_outer tp tbl cmds =
     cmds @ concat (map (\<lambda>entry. replicate (nat (Num (snd entry)))
        \<lparr>CommandType = tp, PID = 0, ComponentID = fst entry, Config = snd entry\<rparr>) tbl)"
  by (induction tbl arbitrary: cmds) (simp_all add: buildCommands_inner_replicate del: buildCommands_inner.simps)


text \<open>
  Claim C6. Building scale-out commands goes through the kinds pd, tikv, pump, tiflash,
  tidb, ticdc, drainer in this order and emits, for a kind with desired count \<open>N\<close>,
  exactly \<open>N\<close> identical commands carrying the kind's whole configuration, and nothing
  for a count of zero. With one pd, two tidb and zero of every other kind the result is
  three commands: one for pd, then two for tidb.
\<close>

theorem buildCommands_kind_order:
  "buildCommands tp opt =
     concat (map (\<lambda>entry. replicate (nat (Num (snd entry)))
        \<lparr>CommandType = tp, PID = 0, ComponentID = fst entry, Config = snd entry\<rparr>)
       [(''pd'', pd opt), (''tikv'', tikv opt), (''pump'', pump opt),
        (''tiflash'', tiflash opt), (''tidb'', tidb opt), (''ticdc'', ticdc opt),
        (''drainer'', drainer opt)])
   \<and> (Num (pd opt) = 1 \<and> Num (tidb opt) = 2 \<and> Num (tikv opt) = 0 \<and> Num (pump opt) = 0 \<and>
      Num (tiflash opt) = 0 \<and> Num (ticdc opt) = 0 \<and> Num (drainer opt) = 0 \<longrightarrow>
      buildCommands ScaleOutCommandType opt =
        [\<lparr>CommandType = ScaleOutCommandType, PID = 0, ComponentID = ''pd'', Config = pd opt\<rparr>,
         \<lparr>CommandType = ScaleOutCommandType, PID = 0, ComponentID = ''tidb'', Config = tidb opt\<rparr>,
         \<lparr>CommandType = ScaleOutCommandType, PID = 0, ComponentID = ''tidb'', Config = tidb opt\<rparr>])"
  unfolding buildCommands_def buildCommands_outer_concat
  by (simp add: numeral_2_eq_2)

theorem buildCommands_kind_order_witness:
  "Num (pd one_pd_two_tidb) = 1 \<and> Num (tidb one_pd_two_tidb) = 2 \<and>
   Num (tikv one_pd_two_tidb) = 0 \<and> Num (pump one_pd_two_tidb) = 0 \<and>
   Num (tiflash one_pd_two_tidb) = 0 \<and> Num (ticdc one_pd_two_tidb) = 0 \<and>
   Num (drainer one_pd_two_tidb) = 0 \<and>
   buildCommands ScaleOutCommandType one_pd_two_tidb =
     [\<lparr>CommandType = ScaleOutCommandType, PID = 0, ComponentID = ''pd'',
       Config = zero_Config\<lparr>Num := 1\<rparr>\<rparr>,
      \<lparr>CommandType = ScaleOutCommandType, PID = 0, ComponentID = ''tidb'',
       Config = zero_Config\<lparr>Num := 2\<rparr>\<rparr>,
      \<lparr>CommandType = ScaleOutCommandType, PID = 0, ComponentID = ''tidb'',
       Config = zero_Config\<lparr>Num := 2\<rparr>\<rparr>]"
  using buildCommands_kind_order [of ScaleOutCommandType one_pd_two_tidb]
  by (simp add: one_pd_two_tidb_def zero_Config_def numeral_2_eq_2)

subsection \<open>The dispatcher\<close>

lemma send_stops_at_failure:
  "fst (sendCommandsAndPrintResult env cs1 addr tr) \<noteq> None \<Longrightarrow>
   sendCommandsAndPrintResult env (cs1 @ cs2) addr tr = sendCommandsAndPrintResult env cs1 addr tr"
  by (induction cs1 arbitrary: tr) (auto split: sum.splits option.splits)

lemma requestCommand_cases:
  obtains (marshal) e where "json_Marshal env cmd = Inl e"
      "requestCommand env cmd addr tr = (Inl (AddStack e), tr)"
  | (post) e where "json_Marshal env cmd = Inr (payload env cmd)"
      "http_Post env tr (command_url addr) (payload env cmd) = Inl e"
      "requestCommand env cmd addr tr =
         (Inl (AddStack e), tr @ [HttpPost (command_url addr) (payload env cmd)])"
  | (ok) rc where "json_Marshal env cmd = Inr (payload env cmd)"
      "http_Post env tr (command_url addr) (payload env cmd) = Inr rc"
      "requestCommand env cmd addr tr =
         (Inr rc, tr @ [HttpPost (command_url addr) (payload env cmd)])"
  by (cases "json_Marshal env cmd"; cases "http_Post env tr (command_url addr) (payload env cmd)")
     (auto simp: requestCommand_def payload_def)

lemma round_trips_Nil [simp]: "round_trips env addr [] rcs = []"
  by (simp add: round_trips_def)

lemma round_trips_Cons [simp]:
  "round_trips env addr (c # cs) (rc # rcs) =
     round_trip env addr c (body rc) @ round_trips env addr cs rcs"
  by (simp add: round_trips_def)

lemma send_exact:
  "\<exists>k rcs.
     k \<le> length cmds \<and> length rcs = k \<and>
     (\<forall>i<k. json_Marshal env (cmds ! i) = Inr (payload env (cmds ! i)) \<and>
            http_Post env (tr @ round_trips env addr (take i cmds) (take i rcs))
              (command_url addr) (payload env (cmds ! i)) = Inr (rcs ! i) \<and>
            (Suc i < k \<longrightarrow> copy_err (rcs ! i) = None)) \<and>
     ((k = length cmds \<and> (0 < k \<longrightarrow> copy_err (rcs ! (k - 1)) = None) \<and>
       sendCommandsAndPrintResult env cmds addr tr =
         (None, tr @ round_trips env addr (take k cmds) rcs)) \<or>
      (0 < k \<and>
       (\<exists>e. copy_err (rcs ! (k - 1)) = Some e \<and>
            sendCommandsAndPrintResult env cmds addr tr =
              (Some (AddStack e), tr @ round_trips env addr (take k cmds) rcs))) \<or>
      (k < length cmds \<and> (0 < k \<longrightarrow> copy_err (rcs ! (k - 1)) = None) \<and>
       (\<exists>e. json_Marshal env (cmds ! k) = Inl e \<and>
            sendCommandsAndPrintResult env cmds addr tr =
              (Some (AddStack (AddStack e)), tr @ round_trips env addr (take k cmds) rcs))) \<or>
      (k < length cmds \<and> (0 < k \<longrightarrow> copy_err (rcs ! (k - 1)) = None) \<and>
       json_Marshal env (cmds ! k) = Inr (payload env (cmds ! k)) \<and>
       (\<exists>e. http_Post env (tr @ round_trips env addr (take k cmds) rcs)
              (command_url addr) (payload env (cmds ! k)) = Inl e \<and>
            sendCommandsAndPrintResult env cmds addr tr =
              (Some (AddStack (AddStack e)),
               tr @ round_trips env addr (take k cmds) rcs @
                 [HttpPost (command_url addr) (payload env (cmds ! k))]))))"
  (is "\<exists>k rcs. ?P cmds tr k rcs")
proof (induction cmds arbitrary: tr)
  case Nil
  show ?case by (intro exI [of _ 0] exI [of _ "[]"]) simp
next
  case (Cons c cs)
  show ?case
  proof (cases rule: requestCommand_cases [of env c addr tr])
    case (marshal e)
    then show ?thesis
      by (intro exI [of _ 0] exI [of _ "[]"]) simp
  next
    case (post e)
    then show ?thesis
      by (intro exI [of _ 0] exI [of _ "[]"]) simp
  next
    case (ok rc)
    let ?tr2 = "tr @ round_trip env addr c (body rc)"
    show ?thesis
    proof (cases "copy_err rc")
      case (Some e)
      with ok show ?thesis
        by (intro exI [of _ 1] exI [of _ "[rc]"]) (simp add: round_trip_def)
    next
      case None
      have step: "sendCommandsAndPrintResult env (c # cs) addr tr =
          sendCommandsAndPrintResult env cs addr ?tr2"
        using ok None by (simp add: round_trip_def)
      from Cons.IH [of ?tr2] obtain k rcs where IH: "?P cs ?tr2 k rcs"
        by (elim exE) (rule that)
      have "?P (c # cs) tr (Suc k) (rc # rcs)"
        unfolding step using IH ok None
        by (cases k) (auto simp: All_less_Suc2)
      then show ?thesis by blast
    qed
  qed
qed

text \<open>
  Claim C7. The dispatcher sends the commands one after the other, one round trip per
  command, and copies each response body to the output before the next request; the
  first failure is returned at once and no later command is sent. Stated on the trace:
  there is a number \<open>k\<close> of commands that received a response; the request for each of
  them was sent on the trace made of the complete round trips of the commands before it,
  and what was written to the output is the body of the response to that request. Then
  one of four things happened, and the result and the trace are determined in each: all
  commands made a clean round trip and the result is no error; the copy of the last
  response failed, and its error is returned; the next command could not be marshalled,
  and that error is returned with nothing sent; the next request failed, and that error
  is returned with the request the last event. After a failure, the commands that follow
  have no effect. For scale-in of 111 and 222 two commands are built, 111 first, and when
  the first request fails the second is not sent.
\<close>

theorem sendCommands_sequential_fail_fast:
  "(fst (sendCommandsAndPrintResult env cs1 addr tr) \<noteq> None \<longrightarrow>
      sendCommandsAndPrintResult env (cs1 @ cs2) addr tr =
      sendCommandsAndPrintResult env cs1 addr tr) \<and>
   (\<exists>k rcs.
     k \<le> length cmds \<and> length rcs = k \<and>
     (\<forall>i<k. json_Marshal env (cmds ! i) = Inr (payload env (cmds ! i)) \<and>
            http_Post env (tr @ round_trips env addr (take i cmds) (take i rcs))
              (command_url addr) (payload env (cmds ! i)) = Inr (rcs ! i) \<and>
            (Suc i < k \<longrightarrow> copy_err (rcs ! i) = None)) \<and>
     ((k = length cmds \<and> (0 < k \<longrightarrow> copy_err (rcs ! (k - 1)) = None) \<and>
       sendCommandsAndPrintResult env cmds addr tr =
         (None, tr @ round_trips env addr (take k cmds) rcs)) \<or>
      (0 < k \<and>
       (\<exists>e. copy_err (rcs ! (k - 1)) = Some e \<and>
            sendCommandsAndPrintResult env cmds addr tr =
              (Some (AddStack e), tr @ round_trips env addr (take k cmds) rcs))) \<or>
      (k < length cmds \<and> (0 < k \<longrightarrow> copy_err (rcs ! (k - 1)) = None) \<and>
       (\<exists>e. json_Marshal env (cmds ! k) = Inl e \<and>
            sendCommandsAndPrintResult env cmds addr tr =
              (Some (AddStack (AddStack e)), tr @ round_trips env addr (take k cmds) rcs))) \<or>
      (k < length cmds \<and> (0 < k \<longrightarrow> copy_err (rcs ! (k - 1)) = None) \<and>
       json_Marshal env (cmds ! k) = Inr (payload env (cmds ! k)) \<and>
       (\<exists>e. http_Post env (tr @ round_trips env addr (take k cmds) rcs)
              (command_url addr) (payload env (cmds ! k)) = Inl e \<and>
            sendCommandsAndPrintResult env cmds addr tr =
              (Some (AddStack (AddStack e)),
               tr @ round_trips env addr (take k cmds) rcs @
                 [HttpPost (command_url addr) (payload env (cmds ! k))]))))) \<and>
   scaleIn_loop [111, 222] [] =
     [\<lparr>CommandType = ScaleInCommandType, PID = 111, ComponentID = [], Config = zero_Config\<rparr>,
      \<lparr>CommandType = ScaleInCommandType, PID = 222, ComponentID = [], Config = zero_Config\<rparr>] \<and>
   (targetTag env = Inr port \<and>
    json_Marshal env \<lparr>CommandType = ScaleInCommandType, PID = 111, ComponentID = [],
                       Config = zero_Config\<rparr> = Inr d \<and>
    http_Post env tr (command_url (''127.0.0.1:'' @ Itoa port)) d = Inl e \<longrightarrow>
      scaleIn env [111, 222] tr =
        (Some (AddStack (AddStack e)),
         tr @ [HttpPost (command_url (''127.0.0.1:'' @ Itoa port)) d]))"
proof -
  have a: "fst (sendCommandsAndPrintResult env cs1 addr tr) \<noteq> None \<longrightarrow>
      sendCommandsAndPrintResult env (cs1 @ cs2) addr tr =
      sendCommandsAndPrintResult env cs1 addr tr"
    using send_stops_at_failure [of env cs1 addr tr cs2] by blast
  have c: "scaleIn_loop [111, 222] [] =
     [\<lparr>CommandType = ScaleInCommandType, PID = 111, ComponentID = [], Config = zero_Config\<rparr>,
      \<lparr>CommandType = ScaleInCommandType, PID = 222, ComponentID = [], Config = zero_Config\<rparr>]"
    by simp
  have d: "targetTag env = Inr port \<and>
    json_Marshal env \<lparr>CommandType = ScaleInCommandType, PID = 111, ComponentID = [],
                       Config = zero_Config\<rparr> = Inr d \<and>
    http_Post env tr (command_url (''127.0.0.1:'' @ Itoa port)) d = Inl e \<longrightarrow>
      scaleIn env [111, 222] tr =
        (Some (AddStack (AddStack e)),
         tr @ [HttpPost (command_url (''127.0.0.1:'' @ Itoa port)) d])"
    by (simp add: scaleIn_def requestCommand_def)
  from a send_exact [of cmds env tr addr] c d show ?thesis
    by (intro conjI)
qed

theorem sendCommands_sequential_fail_fast_witness:
  "fst (sendCommandsAndPrintResult refusing
          [\<lparr>CommandType = ScaleInCommandType, PID = 111, ComponentID = [], Config = zero_Config\<rparr>]
          ''127.0.0.1:9527'' []) \<noteq> None \<and>
   sendCommandsAndPrintResult refusing
     ([\<lparr>CommandType = ScaleInCommandType, PID = 111, ComponentID = [], Config = zero_Config\<rparr>] @
      [\<lparr>CommandType = ScaleInCommandType, PID = 222, ComponentID = [], Config = zero_Config\<rparr>])
     ''127.0.0.1:9527'' [] =
   sendCommandsAndPrintResult refusing
     [\<lparr>CommandType = ScaleInCommandType, PID = 111, ComponentID = [], Config = zero_Config\<rparr>]
     ''127.0.0.1:9527'' [] \<and>
   targetTag refusing = Inr 9527 \<and>
   json_Marshal refusing \<lparr>CommandType = ScaleInCommandType, PID = 111, ComponentID = [],
                            Config = zero_Config\<rparr> = Inr ''scale-in 111'' \<and>
   http_Post refusing [] (command_url (''127.0.0.1:'' @ Itoa 9527)) ''scale-in 111'' =
     Inl (Error ''connection refused'') \<and>
   scaleIn refusing [111, 222] [] =
     (Some (AddStack (AddStack (Error ''connection refused''))),
      [HttpPost ''http://127.0.0.1:9527/command'' ''scale-in 111'']) \<and>
   json_Marshal answering
     \<lparr>CommandType = ScaleInCommandType, PID = 111, ComponentID = [], Config = zero_Config\<rparr> =
     Inr ''scale-in 111'' \<and>
   http_Post answering [] (command_url ''127.0.0.1:9527'') ''scale-in 111'' =
     Inr \<lparr>body = ''ok'', copy_err = None\<rparr> \<and>
   copy_err \<lparr>body = ''ok'', copy_err = None\<rparr> = None \<and>
   json_Marshal answering
     \<lparr>CommandType = ScaleInCommandType, PID = 222, ComponentID = [], Config = zero_Config\<rparr> =
     Inr ''scale-in 222'' \<and>
   http_Post answering
     [HttpPost (command_url ''127.0.0.1:9527'') ''scale-in 111'', StdoutWrite ''ok'', BodyClose]
     (command_url ''127.0.0.1:9527'') ''scale-in 222'' =
     Inr \<lparr>body = ''ok'', copy_err = None\<rparr> \<and>
   scaleIn answering [111, 222] [] =
     (None,
      [HttpPost ''http://127.0.0.1:9527/command'' ''scale-in 111'', StdoutWrite ''ok'', BodyClose,
       HttpPost ''http://127.0.0.1:9527/command'' ''scale-in 222'', StdoutWrite ''ok'', BodyClose])"
proof -
  let ?c1 = "\<lparr>CommandType = ScaleInCommandType, PID = 111, ComponentID = [],
      Config = zero_Config\<rparr>"
  let ?c2 = "\<lparr>CommandType = ScaleInCommandType, PID = 222, ComponentID = [],
      Config = zero_Config\<rparr>"
  let ?ok = "\<lparr>body = ''ok'', copy_err = None\<rparr>"
  note t = sendCommands_sequential_fail_fast [of refusing "[?c1]" "''127.0.0.1:9527''" "[]"
      "[?c2]" "[?c1]" 9527 "''scale-in 111''" "Error ''connection refused''"]
  have h1: "fst (sendCommandsAndPrintResult refusing [?c1] ''127.0.0.1:9527'' []) \<noteq> None"
    by (simp add: refusing_def requestCommand_def)
  have h2: "targetTag refusing = Inr 9527"
    and h3: "json_Marshal refusing ?c1 = Inr ''scale-in 111''"
    and h4: "http_Post refusing [] (command_url (''127.0.0.1:'' @ Itoa 9527)) ''scale-in 111'' =
      Inl (Error ''connection refused'')"
    by (simp_all add: refusing_def ScaleInCommandType_def Itoa_111)
  have r1: "sendCommandsAndPrintResult refusing ([?c1] @ [?c2]) ''127.0.0.1:9527'' [] =
      sendCommandsAndPrintResult refusing [?c1] ''127.0.0.1:9527'' []"
    using t h1 by blast
  have r2: "scaleIn refusing [111, 222] [] =
      (Some (AddStack (AddStack (Error ''connection refused''))),
       [HttpPost ''http://127.0.0.1:9527/command'' ''scale-in 111''])"
    using t h2 h3 h4 by (simp add: command_url_def Itoa_9527)
  have cmds: "scaleIn_loop [111, 222] [] = [?c1, ?c2]"
    using t by blast
  have a1: "json_Marshal answering ?c1 = Inr ''scale-in 111''"
    "http_Post answering [] (command_url ''127.0.0.1:9527'') ''scale-in 111'' = Inr ?ok"
    "copy_err ?ok = None"
    "json_Marshal answering ?c2 = Inr ''scale-in 222''"
    "http_Post answering
       [HttpPost (command_url ''127.0.0.1:9527'') ''scale-in 111'', StdoutWrite ''ok'', BodyClose]
       (command_url ''127.0.0.1:9527'') ''scale-in 222'' = Inr ?ok"
    by (simp_all add: answering_def ScaleInCommandType_def Itoa_111 Itoa_222)
  have a2: "scaleIn answering [111, 222] [] =
     (None,
      [HttpPost ''http://127.0.0.1:9527/command'' ''scale-in 111'', StdoutWrite ''ok'', BodyClose,
       HttpPost ''http://127.0.0.1:9527/command'' ''scale-in 222'', StdoutWrite ''ok'', BodyClose])"
    by (simp add: scaleIn_def answering_def requestCommand_def command_url_def Itoa_9527
        Itoa_111 Itoa_222 ScaleInCommandType_def)
  from h1 r1 h2 h3 h4 r2 a1 a2 show ?thesis by (intro conjI)
qed

text \<open>
  Claim C1. Every operation should post to \<open>/command\<close> at the address made of the
  loopback host, a colon and the port of the run state. \<open>scaleIn\<close> does; \<open>partition\<close> and
  \<open>restart\<close> join host and port without the colon, so that with port 9527 they post
  to \<open>127.0.0.19527\<close>.
\<close>

theorem partition_restart_address_lacks_colon:
  "snd (partition answering [''111''] []) =
     [HttpPost ''http://127.0.0.19527/command'' ''handlePartition 111'',
      StdoutWrite ''ok'', BodyClose] \<and>
   snd (restart answering [''111''] []) =
     [HttpPost ''http://127.0.0.19527/command'' ''handleRestart 111'',
      StdoutWrite ''ok'', BodyClose] \<and>
   snd (scaleIn answering [111] []) =
     [HttpPost ''http://127.0.0.1:9527/command'' ''scale-in 111'',
      StdoutWrite ''ok'', BodyClose]"
  by (simp add: partition_def restart_def scaleIn_def answering_def requestCommand_def
        command_url_def Itoa_9527 Itoa_111 Atoi_111 ScaleInCommandType_def
        RestartCommandType_def PartitionCommandType_def)

subsection \<open>The fields of a command\<close>




section \<open>Properties of the version order\<close>

text \<open>
  \<open>Compare\<close> is antisymmetric, which makes "no installed version is greater" the same as
  "every installed version is at most this one"; an invalid version ranks below every
  valid one. The last element of a sorted permutation is a greatest element.
\<close>

lemma string_less_total: "x \<noteq> y \<Longrightarrow> string_less x y = (\<not> string_less y x)"
proof (induction x y rule: string_less.induct)
  case (4 x xs y ys)
  show ?case
  proof (cases "(of_char x :: nat) = of_char y")
    case True
    then have "x = y" by simp
    with 4 True show ?thesis by simp
  next
    case False
    then show ?thesis by auto
  qed
qed simp_all

lemma compareInt_antisym: "compareInt x y = - compareInt y x"
  using string_less_total [of x y] by (auto simp: compareInt_def)

lemma compareInt_refl: "compareInt x x = 0"
  by (simp add: compareInt_def)

lemma compareIdent_antisym: "dx \<noteq> dy \<Longrightarrow> compareIdent dx dy = - compareIdent dy dx"
  using string_less_total [of dx dy] by (auto simp: compareIdent_def)

lemma hd_dropWhile_dot:
  "dropWhile (\<lambda>c. c \<noteq> CHR ''.'') xs \<noteq> [] \<Longrightarrow>
   hd (dropWhile (\<lambda>c. c \<noteq> CHR ''.'') xs) = CHR ''.''"
  using hd_dropWhile [of "\<lambda>c. c \<noteq> CHR ''.''" xs] by simp

lemma comparePrerelease_loop_antisym:
  "x \<noteq> y \<Longrightarrow> (x \<noteq> [] \<Longrightarrow> y \<noteq> [] \<Longrightarrow> hd x = hd y) \<Longrightarrow>
   comparePrerelease_loop x y = - comparePrerelease_loop y x"
proof (induction x y rule: comparePrerelease_loop.induct)
  case (1 x y)
  have e1: "comparePrerelease_loop x y =
     (if x \<noteq> [] \<and> y \<noteq> []
      then (if fst (nextIdent (tl x)) \<noteq> fst (nextIdent (tl y))
            then compareIdent (fst (nextIdent (tl x))) (fst (nextIdent (tl y)))
            else comparePrerelease_loop (snd (nextIdent (tl x))) (snd (nextIdent (tl y))))
      else (if x = [] then - 1 else 1))"
    by (rule comparePrerelease_loop.simps)
  have e2: "comparePrerelease_loop y x =
     (if y \<noteq> [] \<and> x \<noteq> []
      then (if fst (nextIdent (tl y)) \<noteq> fst (nextIdent (tl x))
            then compareIdent (fst (nextIdent (tl y))) (fst (nextIdent (tl x)))
            else comparePrerelease_loop (snd (nextIdent (tl y))) (snd (nextIdent (tl x))))
      else (if y = [] then - 1 else 1))"
    by (rule comparePrerelease_loop.simps)
  show ?case
  proof (cases "x \<noteq> [] \<and> y \<noteq> []")
    case False
    with "1.prems"(1) show ?thesis
      unfolding e1 e2 by (auto simp del: comparePrerelease_loop.simps)
  next
    case True
    show ?thesis
    proof (cases "fst (nextIdent (tl x)) = fst (nextIdent (tl y))")
      case False
      with True compareIdent_antisym [OF False] show ?thesis
        unfolding e1 e2 by (simp del: comparePrerelease_loop.simps)
    next
      case same: True
      let ?P = "\<lambda>c. c \<noteq> CHR ''.''"
      have tl_ne: "tl x \<noteq> tl y"
        using True "1.prems" by (cases x; cases y) auto
      have split_x: "tl x = fst (nextIdent (tl x)) @ snd (nextIdent (tl x))"
        and split_y: "tl y = fst (nextIdent (tl y)) @ snd (nextIdent (tl y))"
        by (simp_all add: nextIdent_def)
      have ne: "snd (nextIdent (tl x)) \<noteq> snd (nextIdent (tl y))"
        using tl_ne split_x split_y same by metis
      have hd_eq: "hd (snd (nextIdent (tl x))) = hd (snd (nextIdent (tl y)))"
        if "snd (nextIdent (tl x)) \<noteq> []" "snd (nextIdent (tl y)) \<noteq> []"
      proof -
        from that have "dropWhile ?P (tl x) \<noteq> []" "dropWhile ?P (tl y) \<noteq> []"
          by (simp_all add: nextIdent_def)
        then show ?thesis by (simp add: nextIdent_def hd_dropWhile_dot)
      qed
      have "comparePrerelease_loop (snd (nextIdent (tl x))) (snd (nextIdent (tl y))) =
          - comparePrerelease_loop (snd (nextIdent (tl y))) (snd (nextIdent (tl x)))"
        using "1.IH" True same ne hd_eq by blast
      with True same show ?thesis
        unfolding e1 e2 by (simp del: comparePrerelease_loop.simps)
    qed
  qed
qed

lemma comparePrerelease_antisym:
  "x = [] \<or> hd x = CHR ''-'' \<Longrightarrow> y = [] \<or> hd y = CHR ''-'' \<Longrightarrow>
   comparePrerelease x y = - comparePrerelease y x"
  using comparePrerelease_loop_antisym [of x y]
  by (auto simp: comparePrerelease_def simp del: comparePrerelease_loop.simps)

lemma take_keeps_hd: "take a v = [] \<or> hd (take a v) = hd v"
  by (cases a; cases v) simp_all

lemma parsePrerelease_shape:
  "parsePrerelease v = Some r \<Longrightarrow> fst r = [] \<or> hd (fst r) = CHR ''-''"
  using take_keeps_hd [of "fst (the (parsePrerelease_loop v 1 1))" v]
  by (auto simp: parsePrerelease_def split: if_splits option.splits
      simp del: parsePrerelease_loop.simps)

lemma parse_suffix_shape:
  "parse_suffix ma mi pa v = Some p \<Longrightarrow> prerelease p = [] \<or> hd (prerelease p) = CHR ''-''"
  using parsePrerelease_shape [of v]
  by (auto simp: parse_suffix_def split: if_splits option.splits
      simp del: parsePrerelease_loop.simps parseBuild_loop.simps)

lemma parse_shape: "parse v = Some p \<Longrightarrow> prerelease p = [] \<or> hd (prerelease p) = CHR ''-''"
  unfolding parse_def
  by (auto split: if_splits option.splits dest: parse_suffix_shape)

lemma Compare_antisym: "Compare v w = - Compare w v"
proof (cases "parse v")
  case None
  then show ?thesis by (cases "parse w") (simp_all add: Compare_def)
next
  case (Some pv)
  show ?thesis
  proof (cases "parse w")
    case None
    with Some show ?thesis by (simp add: Compare_def)
  next
    case (Some pw)
    note a = compareInt_antisym [of "major pw" "major pv"]
      and b = compareInt_antisym [of "minor pw" "minor pv"]
      and c = compareInt_antisym [of "patch pw" "patch pv"]
    have d: "comparePrerelease (prerelease pv) (prerelease pw) =
        - comparePrerelease (prerelease pw) (prerelease pv)"
      using parse_shape [OF \<open>parse v = Some pv\<close>] parse_shape [OF Some]
      by (rule comparePrerelease_antisym)
    show ?thesis
      using \<open>parse v = Some pv\<close> Some
      by (simp add: Compare_def a b c d)
  qed
qed

lemma Compare_refl: "Compare v v = 0"
  using Compare_antisym [of v v] by simp

lemma Compare_invalid:
  "\<not> IsValid v \<Longrightarrow> IsValid w \<Longrightarrow> Compare v w = - 1 \<and> Compare w v = 1"
  "\<not> IsValid v \<Longrightarrow> \<not> IsValid w \<Longrightarrow> Compare v w = 0"
  by (auto simp: IsValid_def Compare_def)

lemma installed_loop_iff: "installed_loop vs v = (v \<in> set vs)"
  by (induction vs) auto

lemma last_of_sorted:
  assumes perm: "mset ys = mset xs"
    and sorted: "sorted_wrt (\<lambda>a b. \<not> lt b a) ys"
    and ne: "xs \<noteq> []"
    and irrefl: "\<And>x. \<not> lt x x"
  shows "ys \<noteq> [] \<and> ys ! (length ys - 1) \<in> set xs \<and>
    (\<forall>w \<in> set xs. \<not> lt (ys ! (length ys - 1)) w)"
proof -
  from perm ne have ys: "ys \<noteq> []" by auto
  from perm have sets: "set ys = set xs" by (rule mset_eq_setD)
  have mem: "ys ! (length ys - 1) \<in> set xs"
    using ys sets by (metis diff_less length_greater_0_conv nth_mem zero_less_one)
  have "\<not> lt (ys ! (length ys - 1)) w" if "w \<in> set xs" for w
  proof -
    from that sets obtain i where i: "i < length ys" "w = ys ! i"
      by (metis in_set_conv_nth)
    show ?thesis
    proof (cases "i = length ys - 1")
      case True
      with i irrefl show ?thesis by simp
    next
      case False
      with i have "i < length ys - 1" by simp
      from sorted_wrt_nth_less [OF sorted this] ys i show ?thesis by simp
    qed
  qed
  with ys mem show ?thesis by blast
qed

lemma semver_less_irrefl: "\<not> semver_less x x"
  by (simp add: semver_less_def Compare_refl)

lemma resolve_latest:
  assumes ne: "versions \<noteq> []"
    and named: "[] \<notin> set versions"
    and perm: "mset (sort_Slice st semver_less versions) = mset versions"
    and sorted: "sorted_wrt (\<lambda>a b. \<not> semver_less b a) (sort_Slice st semver_less versions)"
  shows "\<exists>v. pick_latest st versions [] = Inr (sort_Slice st semver_less versions, v) \<and>
    v \<in> set versions \<and> (\<forall>w \<in> set versions. \<not> semver_less v w) \<and>
    \<not> needDownload (sort_Slice st semver_less versions) v"
proof -
  let ?ys = "sort_Slice st semver_less versions"
  let ?v = "?ys ! (length ?ys - 1)"
  from last_of_sorted [OF perm sorted ne semver_less_irrefl]
  have ys: "?ys \<noteq> []" and mem: "?v \<in> set versions"
    and top: "\<forall>w \<in> set versions. \<not> semver_less ?v w"
    by blast+
  have pick: "pick_latest st versions [] = Inr (?ys, ?v)"
    using ne ys by (simp add: pick_latest_def IsEmpty_def Let_def)
  from mem named have "?v \<noteq> []" by metis
  moreover from mem perm have "?v \<in> set ?ys" by (metis mset_eq_setD)
  ultimately have "\<not> needDownload ?ys ?v"
    by (simp add: needDownload_def IsEmpty_def installed_loop_iff)
  with pick mem top show ?thesis by blast
qed

lemma parse_v490:
  "parse ''v4.9.0'' =
     Some \<lparr>major = ''4'', minor = ''9'', patch = ''0'', prerelease = [], build = []\<rparr>"
  by (simp add: parse_def parseInt_def is_digit_def parse_suffix_def)

lemma parse_v500:
  "parse ''v5.0.0'' =
     Some \<lparr>major = ''5'', minor = ''0'', patch = ''0'', prerelease = [], build = []\<rparr>"
  by (simp add: parse_def parseInt_def is_digit_def parse_suffix_def)

lemma parse_v510:
  "parse ''v5.1.0'' =
     Some \<lparr>major = ''5'', minor = ''1'', patch = ''0'', prerelease = [], build = []\<rparr>"
  by (simp add: parse_def parseInt_def is_digit_def parse_suffix_def)

lemma parse_nightly: "parse ''nightly'' = None"
  by (simp add: parse_def)

lemma Compare_examples:
  "Compare ''v5.1.0'' ''v4.9.0'' = 1" "Compare ''v5.1.0'' ''v5.0.0'' = 1"
  "Compare ''v4.9.0'' ''v5.1.0'' = - 1" "Compare ''v5.0.0'' ''v5.1.0'' = - 1"
  "Compare ''v5.0.0'' ''v4.9.0'' = 1" "Compare ''v4.9.0'' ''v5.0.0'' = - 1"
  "Compare ''nightly'' ''v4.9.0'' = - 1" "Compare ''v4.9.0'' ''nightly'' = 1"
  by (simp_all add: Compare_def parse_v490 parse_v500 parse_v510 parse_nightly compareInt_def
      comparePrerelease_def)

lemma resolve_installed:
  assumes iv: "InstalledVersions st c = Inr versions"
    and ne: "versions \<noteq> []"
    and named: "[] \<notin> set versions"
    and perm: "mset (sort_Slice st semver_less versions) = mset versions"
    and sorted: "sorted_wrt (\<lambda>a b. \<not> semver_less b a) (sort_Slice st semver_less versions)"
  shows "\<exists>v. pick_latest st versions [] = Inr (sort_Slice st semver_less versions, v) \<and>
    v \<in> set versions \<and> (\<forall>w \<in> set versions. \<not> semver_less v w) \<and>
    \<not> needDownload (sort_Slice st semver_less versions) v \<and>
    downloadIfMissing st c [] tr =
      (BinaryPath st c v, tr @ [CallInstalledVersions c, CallBinaryPath c v])"
proof -
  from resolve_latest [OF ne named perm sorted] obtain v where
    v: "pick_latest st versions [] = Inr (sort_Slice st semver_less versions, v)"
      "v \<in> set versions" "\<forall>w \<in> set versions. \<not> semver_less v w"
      "\<not> needDownload (sort_Slice st semver_less versions) v"
    by (elim exE conjE) (rule that)
  have "downloadIfMissing st c [] tr =
      (BinaryPath st c v, tr @ [CallInstalledVersions c, CallBinaryPath c v])"
    using iv v(1) v(4) by (simp add: downloadIfMissing_def)
  with v show ?thesis by blast
qed

section \<open>Properties of the run command\<close>

subsection \<open>The name of the working directory\<close>

lemma length_sets: "length sets = 62"
  by (simp add: sets_def)

lemma float64_nonneg:
  assumes "0 \<le> n"
  shows "0 \<le> float64 n"
proof (cases "n < 2 ^ 53")
  case True
  with assms show ?thesis by (simp add: float64_def)
next
  case False
  define e where "e = shift_count n"
  define q where "q = n div 2 ^ e"
  have q: "0 \<le> q" using assms by (simp add: q_def pos_imp_zdiv_nonneg_iff)
  then have "0 \<le> q * 2 ^ e" "0 \<le> (q + 1) * 2 ^ e" by simp_all
  then show ?thesis
    using False unfolding float64_def Let_def e_def [symmetric] q_def [symmetric]
    by (simp only: if_False split: if_split) blast
qed

lemma math_Mod_62_range: "0 \<le> x \<Longrightarrow> 0 \<le> math_Mod x 62 \<and> math_Mod x 62 < 62"
  by (simp add: math_Mod_def)

lemma base62Name_loop_total:
  "0 \<le> num \<Longrightarrow>
   \<exists>s. base62Name_loop num b = Some s \<and> set s \<subseteq> set sets \<union> set b \<and>
       (0 < num \<or> b \<noteq> [] \<longrightarrow> s \<noteq> [])"
proof (induction num b rule: base62Name_loop.induct)
  case (1 num b)
  show ?case
  proof (cases "0 < num")
    case False
    then show ?thesis by simp
  next
    case True
    define r where "r = math_Mod (float64 num) 62"
    have "0 \<le> r \<and> r < 62"
      unfolding r_def using True by (intro math_Mod_62_range float64_nonneg) simp
    then have r: "0 \<le> r" "nat r < length sets"
      unfolding length_sets by linarith+
    have nn: "0 \<le> num div 62" using True by simp
    have "\<exists>s. base62Name_loop (num div 62) (sets ! nat r # b) = Some s \<and>
        set s \<subseteq> set sets \<union> set (sets ! nat r # b) \<and>
        (0 < num div 62 \<or> sets ! nat r # b \<noteq> [] \<longrightarrow> s \<noteq> [])"
      using "1.IH" [of r] True r nn by (simp add: r_def)
    then obtain s where s: "base62Name_loop (num div 62) (sets ! nat r # b) = Some s"
      "set s \<subseteq> set sets \<union> set (sets ! nat r # b)" "s \<noteq> []"
      by auto
    have "sets ! nat r \<in> set sets" using r by simp
    with s have "set s \<subseteq> set sets \<union> set b" by auto
    moreover have "base62Name_loop num b = Some s"
      using True r s(1) by (subst base62Name_loop.simps) (simp add: r_def Let_def)
    ultimately show ?thesis using s(3) by simp
  qed
qed

text \<open>
  Claim C10. For every positive 64-bit timestamp the computation of the directory name
  ends, and returns a non-empty string of characters of the 62-symbol alphabet: no index
  into the alphabet is out of bounds, also where \<open>float64(num)\<close> has lost the low bits
  of \<open>num\<close>.
\<close>

theorem base62Name_total_in_alphabet:
  "0 < now \<Longrightarrow> now < 2 ^ 63 \<Longrightarrow>
   \<exists>s. base62Name now = Some s \<and> s \<noteq> [] \<and> set s \<subseteq> set sets"
  using base62Name_loop_total [of now "[]"] by (auto simp: base62Name_def)

theorem base62Name_total_in_alphabet_witness:
  "(0::int) < 2 ^ 63 - 1 \<and> (2 ^ 63 - 1 :: int) < 2 ^ 63 \<and>
   (\<exists>s. base62Name (2 ^ 63 - 1) = Some s \<and> s \<noteq> [] \<and> set s \<subseteq> set sets)"
  using base62Name_total_in_alphabet [of "2 ^ 63 - 1"] by simp

subsection \<open>Resolving the version\<close>

text \<open>
  Claim C4. With no requested version and a non-empty list of installed versions, the
  resolved version is an installed version that no installed version exceeds in the
  semantic-version order, and no download is needed: the run asks for nothing but the
  installed versions and the binary path of that version. For the installed versions
  v4.9.0, v5.0.0, v5.1.0 it is v5.1.0. The hypotheses say what \<open>sort.Slice\<close> guarantees
  on this list, a sorted permutation, and that an installed version has a name.
\<close>

theorem latest_installed_version_resolved:
  assumes iv: "InstalledVersions st c = Inr versions"
    and ne: "versions \<noteq> []"
    and named: "[] \<notin> set versions"
    and perm: "mset (sort_Slice st semver_less versions) = mset versions"
    and sorted: "sorted_wrt (\<lambda>a b. \<not> semver_less b a) (sort_Slice st semver_less versions)"
  shows "\<exists>v. pick_latest st versions [] = Inr (sort_Slice st semver_less versions, v) \<and>
    v \<in> set versions \<and> (\<forall>w \<in> set versions. Compare w v \<le> 0) \<and>
    needDownload (sort_Slice st semver_less versions) v = False \<and>
    downloadIfMissing st c [] tr =
      (BinaryPath st c v, tr @ [CallInstalledVersions c, CallBinaryPath c v]) \<and>
    (versions = [''v4.9.0'', ''v5.0.0'', ''v5.1.0''] \<longrightarrow> v = ''v5.1.0'')"
proof -
  from resolve_installed [OF iv ne named perm sorted, of tr] obtain v where
    pick: "pick_latest st versions [] = Inr (sort_Slice st semver_less versions, v)"
    and mem: "v \<in> set versions"
    and top: "\<forall>w \<in> set versions. \<not> semver_less v w"
    and nd: "\<not> needDownload (sort_Slice st semver_less versions) v"
    and run: "downloadIfMissing st c [] tr =
      (BinaryPath st c v, tr @ [CallInstalledVersions c, CallBinaryPath c v])"
    by (elim exE conjE) (rule that)
  have le: "\<forall>w \<in> set versions. Compare w v \<le> 0"
  proof
    fix w assume "w \<in> set versions"
    with top have "\<not> Compare v w < 0" by (simp add: semver_less_def)
    then show "Compare w v \<le> 0" using Compare_antisym [of w v] by simp
  qed
  have "v = ''v5.1.0''" if "versions = [''v4.9.0'', ''v5.0.0'', ''v5.1.0'']"
  proof -
    from le that have "Compare ''v5.1.0'' v \<le> 0" by simp
    moreover from mem that have "v = ''v4.9.0'' \<or> v = ''v5.0.0'' \<or> v = ''v5.1.0''" by simp
    ultimately show ?thesis by (auto simp: Compare_examples)
  qed
  with pick mem le nd run show ?thesis by blast
qed

theorem latest_installed_version_resolved_witness:
  "InstalledVersions (store_with [''v4.9.0'', ''v5.0.0'', ''v5.1.0'']) ''tidb'' =
     Inr [''v4.9.0'', ''v5.0.0'', ''v5.1.0''] \<and>
   [''v4.9.0'', ''v5.0.0'', ''v5.1.0''] \<noteq> [] \<and>
   [] \<notin> set [''v4.9.0'', ''v5.0.0'', ''v5.1.0''] \<and>
   mset (sort_Slice (store_with [''v4.9.0'', ''v5.0.0'', ''v5.1.0'']) semver_less
          [''v4.9.0'', ''v5.0.0'', ''v5.1.0'']) = mset [''v4.9.0'', ''v5.0.0'', ''v5.1.0''] \<and>
   sorted_wrt (\<lambda>a b. \<not> semver_less b a)
     (sort_Slice (store_with [''v4.9.0'', ''v5.0.0'', ''v5.1.0'']) semver_less
        [''v4.9.0'', ''v5.0.0'', ''v5.1.0'']) \<and>
   downloadIfMissing (store_with [''v4.9.0'', ''v5.0.0'', ''v5.1.0'']) ''tidb'' [] [] =
     (Inr ''/tiup/components/tidb/v5.1.0/tidb'',
      [CallInstalledVersions ''tidb'', CallBinaryPath ''tidb'' ''v5.1.0''])"
proof -
  let ?vs = "[''v4.9.0'', ''v5.0.0'', ''v5.1.0'']"
  have iv: "InstalledVersions (store_with ?vs) ''tidb'' = Inr ?vs"
    by (simp add: store_with_def)
  have ne: "?vs \<noteq> []" and named: "[] \<notin> set ?vs" by simp_all
  have srt: "sort_Slice (store_with ?vs) semver_less ?vs = ?vs"
    by (simp add: store_with_def semver_less_def Compare_examples)
  have perm: "mset (sort_Slice (store_with ?vs) semver_less ?vs) = mset ?vs"
    by (simp only: srt)
  have sorted: "sorted_wrt (\<lambda>a b. \<not> semver_less b a) (sort_Slice (store_with ?vs) semver_less ?vs)"
    unfolding srt by (simp add: semver_less_def Compare_examples)
  from latest_installed_version_resolved [OF iv ne named perm sorted, of "[]"]
  have "downloadIfMissing (store_with ?vs) ''tidb'' [] [] =
      (BinaryPath (store_with ?vs) ''tidb'' ''v5.1.0'',
       [] @ [CallInstalledVersions ''tidb'', CallBinaryPath ''tidb'' ''v5.1.0''])"
    by auto
  then have "downloadIfMissing (store_with ?vs) ''tidb'' [] [] =
     (Inr ''/tiup/components/tidb/v5.1.0/tidb'',
      [CallInstalledVersions ''tidb'', CallBinaryPath ''tidb'' ''v5.1.0''])"
    by (simp add: store_with_def)
  with iv ne named perm sorted show ?thesis by blast
qed

text \<open>
  Claim C5, as stated: a malformed installed version makes resolution fail with an
  invalid-version error. It does not: next to v4.9.0 the installed name nightly is ranked
  lowest and v4.9.0 is resolved; alone, nightly itself is resolved; no error arises.
\<close>

theorem malformed_installed_version_accepted:
  "\<not> IsValid ''nightly'' \<and>
   downloadIfMissing (store_with [''nightly'', ''v4.9.0'']) ''tidb'' [] [] =
     (Inr ''/tiup/components/tidb/v4.9.0/tidb'',
      [CallInstalledVersions ''tidb'', CallBinaryPath ''tidb'' ''v4.9.0'']) \<and>
   downloadIfMissing (store_with [''nightly'']) ''tidb'' [] [] =
     (Inr ''/tiup/components/tidb/nightly/tidb'',
      [CallInstalledVersions ''tidb'', CallBinaryPath ''tidb'' ''nightly''])"
  by (simp add: IsValid_def parse_nightly downloadIfMissing_def store_with_def pick_latest_def
      IsEmpty_def needDownload_def semver_less_def Compare_examples)

text \<open>
  Claim C5, amended. Comparison reports no error for a malformed version: it ranks it
  below every well-formed version and level with every other malformed one. With no
  requested version and a non-empty list of installed versions, whatever their form,
  resolution goes on to the binary path of an installed version, and that version is
  well-formed whenever some installed version is.
\<close>

theorem malformed_versions_rank_lowest:
  "(\<not> IsValid v \<and> IsValid w \<longrightarrow> Compare v w = - 1 \<and> Compare w v = 1) \<and>
   (\<not> IsValid v \<and> \<not> IsValid w \<longrightarrow> Compare v w = 0) \<and>
   (InstalledVersions st c = Inr versions \<and> versions \<noteq> [] \<and> [] \<notin> set versions \<and>
    mset (sort_Slice st semver_less versions) = mset versions \<and>
    sorted_wrt (\<lambda>a b. \<not> semver_less b a) (sort_Slice st semver_less versions) \<longrightarrow>
    (\<exists>r. r \<in> set versions \<and>
       downloadIfMissing st c [] tr =
         (BinaryPath st c r, tr @ [CallInstalledVersions c, CallBinaryPath c r]) \<and>
       ((\<exists>w. w \<in> set versions \<and> IsValid w) \<longrightarrow> IsValid r)))"
proof (intro conjI impI)
  assume "\<not> IsValid v \<and> IsValid w"
  then show "Compare v w = - 1" "Compare w v = 1"
    using Compare_invalid(1) [of v w] by simp_all
next
  assume "\<not> IsValid v \<and> \<not> IsValid w"
  then show "Compare v w = 0"
    using Compare_invalid(2) [of v w] by simp
next
  assume h: "InstalledVersions st c = Inr versions \<and> versions \<noteq> [] \<and> [] \<notin> set versions \<and>
    mset (sort_Slice st semver_less versions) = mset versions \<and>
    sorted_wrt (\<lambda>a b. \<not> semver_less b a) (sort_Slice st semver_less versions)"
  then obtain r where r: "r \<in> set versions"
    "\<forall>w \<in> set versions. \<not> semver_less r w"
    "downloadIfMissing st c [] tr =
       (BinaryPath st c r, tr @ [CallInstalledVersions c, CallBinaryPath c r])"
    using resolve_installed [of st c versions tr] by blast
  have "IsValid r" if "\<exists>w. w \<in> set versions \<and> IsValid w"
  proof (rule ccontr)
    assume bad: "\<not> IsValid r"
    from that obtain w where w: "w \<in> set versions" "IsValid w" by blast
    from Compare_invalid(1) [OF bad w(2)] have "semver_less r w"
      by (simp add: semver_less_def)
    with r(2) w(1) show False by blast
  qed
  with r(1) r(3) show "\<exists>r. r \<in> set versions \<and>
       downloadIfMissing st c [] tr =
         (BinaryPath st c r, tr @ [CallInstalledVersions c, CallBinaryPath c r]) \<and>
       ((\<exists>w. w \<in> set versions \<and> IsValid w) \<longrightarrow> IsValid r)"
    by blast
qed

theorem malformed_versions_rank_lowest_witness:
  "\<not> IsValid ''nightly'' \<and> IsValid ''v4.9.0'' \<and>
   Compare ''nightly'' ''v4.9.0'' = - 1 \<and> Compare ''v4.9.0'' ''nightly'' = 1 \<and>
   InstalledVersions (store_with [''nightly'', ''v4.9.0'']) ''tidb'' =
     Inr [''nightly'', ''v4.9.0''] \<and>
   [''nightly'', ''v4.9.0''] \<noteq> [] \<and> [] \<notin> set [''nightly'', ''v4.9.0''] \<and>
   mset (sort_Slice (store_with [''nightly'', ''v4.9.0'']) semver_less [''nightly'', ''v4.9.0''])
     = mset [''nightly'', ''v4.9.0''] \<and>
   sorted_wrt (\<lambda>a b. \<not> semver_less b a)
     (sort_Slice (store_with [''nightly'', ''v4.9.0'']) semver_less [''nightly'', ''v4.9.0'']) \<and>
   (\<exists>r. r \<in> set [''nightly'', ''v4.9.0''] \<and> IsValid r \<and>
      downloadIfMissing (store_with [''nightly'', ''v4.9.0'']) ''tidb'' [] [] =
        (BinaryPath (store_with [''nightly'', ''v4.9.0'']) ''tidb'' r,
         [] @ [CallInstalledVersions ''tidb'', CallBinaryPath ''tidb'' r]))"
proof -
  let ?vs = "[''nightly'', ''v4.9.0'']"
  note t = malformed_versions_rank_lowest
    [of "''nightly''" "''v4.9.0''" "store_with ?vs" "''tidb''" ?vs "[]"]
  have bad: "\<not> IsValid ''nightly''" and good: "IsValid ''v4.9.0''"
    by (simp_all add: IsValid_def parse_nightly parse_v490)
  have iv: "InstalledVersions (store_with ?vs) ''tidb'' = Inr ?vs"
    by (simp add: store_with_def)
  have ne: "?vs \<noteq> []" and named: "[] \<notin> set ?vs" by simp_all
  have srt: "sort_Slice (store_with ?vs) semver_less ?vs = ?vs"
    by (simp add: store_with_def semver_less_def Compare_examples)
  have perm: "mset (sort_Slice (store_with ?vs) semver_less ?vs) = mset ?vs"
    by (simp only: srt)
  have sorted: "sorted_wrt (\<lambda>a b. \<not> semver_less b a) (sort_Slice (store_with ?vs) semver_less ?vs)"
    unfolding srt by (simp add: semver_less_def Compare_examples)
  have cmp: "Compare ''nightly'' ''v4.9.0'' = - 1 \<and> Compare ''v4.9.0'' ''nightly'' = 1"
    using t bad good by blast
  have "\<exists>r. r \<in> set ?vs \<and>
       downloadIfMissing (store_with ?vs) ''tidb'' [] [] =
         (BinaryPath (store_with ?vs) ''tidb'' r,
          [] @ [CallInstalledVersions ''tidb'', CallBinaryPath ''tidb'' r]) \<and>
       ((\<exists>w. w \<in> set ?vs \<and> IsValid w) \<longrightarrow> IsValid r)"
    using t iv ne named perm sorted by blast
  moreover have "\<exists>w. w \<in> set ?vs \<and> IsValid w" using good by auto
  ultimately have res: "\<exists>r. r \<in> set ?vs \<and> IsValid r \<and>
      downloadIfMissing (store_with ?vs) ''tidb'' [] [] =
        (BinaryPath (store_with ?vs) ''tidb'' r,
         [] @ [CallInstalledVersions ''tidb'', CallBinaryPath ''tidb'' r])"
    by blast
  from bad good cmp iv ne named perm sorted res show ?thesis by blast
qed

subsection \<open>Downloads\<close>

lemma pick_latest_requested:
  "version \<noteq> [] \<Longrightarrow> pick_latest st versions version = Inr (versions, version)"
  by (simp add: pick_latest_def IsEmpty_def)

lemma pick_latest_nothing: "pick_latest st [] [] = Inr ([], [])"
  by (simp add: pick_latest_def)

lemma downloadIfMissing_fetches:
  assumes "InstalledVersions st c = Inr versions"
    and "(version \<noteq> [] \<and> version \<notin> set versions) \<or> (version = [] \<and> versions = [])"
  shows "downloadIfMissing st c version tr = fetch st c version (tr @ [CallInstalledVersions c])"
  using assms
  by (auto simp: downloadIfMissing_def pick_latest_requested pick_latest_nothing
      needDownload_def IsEmpty_def installed_loop_iff)

text \<open>
  Claim C8, as stated: a requested version that is not installed leads to exactly one
  download call. It does not when the catalog cannot be fetched: the run ends with the
  error of the fetch and no download call.
\<close>

theorem no_download_when_catalog_unreachable:
  "InstalledVersions (unreachable (store_with [''v5.1.0''])) ''tidb'' = Inr [''v5.1.0''] \<and>
   ''v5.2.0'' \<notin> set [''v5.1.0''] \<and>
   downloadIfMissing (unreachable (store_with [''v5.1.0''])) ''tidb'' ''v5.2.0'' [] =
     (Inl (Trace (Error ''no route to host'')),
      [CallInstalledVersions ''tidb'', CallComponentVersions ''tidb'']) \<and>
   filter is_download
     (snd (downloadIfMissing (unreachable (store_with [''v5.1.0''])) ''tidb'' ''v5.2.0'' [])) = []"
  by (simp add: downloadIfMissing_def unreachable_def store_with_def pick_latest_def
      IsEmpty_def needDownload_def fetch_def Let_def)

text \<open>
  Claim C8, amended. A requested version that is installed leads to no call to the
  repository at all. A requested version that is not installed leads, once the catalog is
  fetched and saved, to exactly one download call, for \<open>component:version\<close>, and the
  result is the binary path of that version, or the error of the download. With no
  requested version and nothing installed, once the catalog is fetched and saved, the
  catalog's latest version is adopted and exactly one download call is made for it. When
  the fetch of the catalog fails, or its save, the call returns that error and makes no
  download call.
\<close>

theorem download_calls_issued:
  "(InstalledVersions st c = Inr versions \<and> version \<noteq> [] \<and> version \<in> set versions \<longrightarrow>
      downloadIfMissing st c version tr =
        (BinaryPath st c version, tr @ [CallInstalledVersions c, CallBinaryPath c version]) \<and>
      filter is_network (snd (downloadIfMissing st c version tr)) = filter is_network tr) \<and>
   (InstalledVersions st c = Inr versions \<and> version \<noteq> [] \<and> version \<notin> set versions \<and>
    ComponentVersions st c = Inr m \<and> SaveVersions st c m = None \<longrightarrow>
      snd (downloadIfMissing st c version tr) =
        tr @ [CallInstalledVersions c, CallComponentVersions c, CallSaveVersions c m,
              CallDownloadComponent (ComponentsDir st) (c @ '':'' @ version)] @
        (case DownloadComponent st (ComponentsDir st) (c @ '':'' @ version) of
           None \<Rightarrow> [CallBinaryPath c version] | Some e \<Rightarrow> []) \<and>
      filter is_download (snd (downloadIfMissing st c version tr)) =
        filter is_download tr @
          [CallDownloadComponent (ComponentsDir st) (c @ '':'' @ version)] \<and>
      fst (downloadIfMissing st c version tr) =
        (case DownloadComponent st (ComponentsDir st) (c @ '':'' @ version) of
           None \<Rightarrow> BinaryPath st c version | Some e \<Rightarrow> Inl (Trace e))) \<and>
   (InstalledVersions st c = Inr [] \<and>
    ComponentVersions st c = Inr m \<and> SaveVersions st c m = None \<longrightarrow>
      snd (downloadIfMissing st c [] tr) =
        tr @ [CallInstalledVersions c, CallComponentVersions c, CallSaveVersions c m,
              CallDownloadComponent (ComponentsDir st) (c @ '':'' @ LatestVersion m)] @
        (case DownloadComponent st (ComponentsDir st) (c @ '':'' @ LatestVersion m) of
           None \<Rightarrow> [CallBinaryPath c (LatestVersion m)] | Some e \<Rightarrow> []) \<and>
      filter is_download (snd (downloadIfMissing st c [] tr)) =
        filter is_download tr @
          [CallDownloadComponent (ComponentsDir st) (c @ '':'' @ LatestVersion m)] \<and>
      fst (downloadIfMissing st c [] tr) =
        (case DownloadComponent st (ComponentsDir st) (c @ '':'' @ LatestVersion m) of
           None \<Rightarrow> BinaryPath st c (LatestVersion m) | Some e \<Rightarrow> Inl (Trace e))) \<and>
   (InstalledVersions st c = Inr versions \<and>
    ((version \<noteq> [] \<and> version \<notin> set versions) \<or> (version = [] \<and> versions = [])) \<and>
    ComponentVersions st c = Inl e1 \<longrightarrow>
      downloadIfMissing st c version tr =
        (Inl (Trace e1), tr @ [CallInstalledVersions c, CallComponentVersions c]) \<and>
      filter is_download (snd (downloadIfMissing st c version tr)) = filter is_download tr) \<and>
   (InstalledVersions st c = Inr versions \<and>
    ((version \<noteq> [] \<and> version \<notin> set versions) \<or> (version = [] \<and> versions = [])) \<and>
    ComponentVersions st c = Inr m \<and> SaveVersions st c m = Some e2 \<longrightarrow>
      downloadIfMissing st c version tr =
        (Inl (Trace e2),
         tr @ [CallInstalledVersions c, CallComponentVersions c, CallSaveVersions c m]) \<and>
      filter is_download (snd (downloadIfMissing st c version tr)) = filter is_download tr)"
proof -
  have p1: "downloadIfMissing st c version tr =
        (BinaryPath st c version, tr @ [CallInstalledVersions c, CallBinaryPath c version]) \<and>
      filter is_network (snd (downloadIfMissing st c version tr)) = filter is_network tr"
    if "InstalledVersions st c = Inr versions \<and> version \<noteq> [] \<and> version \<in> set versions"
    using that
    by (simp add: downloadIfMissing_def pick_latest_requested needDownload_def IsEmpty_def
        installed_loop_iff)
  have p2: "snd (downloadIfMissing st c version tr) =
        tr @ [CallInstalledVersions c, CallComponentVersions c, CallSaveVersions c m,
              CallDownloadComponent (ComponentsDir st) (c @ '':'' @ version)] @
        (case DownloadComponent st (ComponentsDir st) (c @ '':'' @ version) of
           None \<Rightarrow> [CallBinaryPath c version] | Some e \<Rightarrow> []) \<and>
      filter is_download (snd (downloadIfMissing st c version tr)) =
        filter is_download tr @
          [CallDownloadComponent (ComponentsDir st) (c @ '':'' @ version)] \<and>
      fst (downloadIfMissing st c version tr) =
        (case DownloadComponent st (ComponentsDir st) (c @ '':'' @ version) of
           None \<Rightarrow> BinaryPath st c version | Some e \<Rightarrow> Inl (Trace e))"
    if h: "InstalledVersions st c = Inr versions \<and> version \<noteq> [] \<and> version \<notin> set versions \<and>
      ComponentVersions st c = Inr m \<and> SaveVersions st c m = None"
  proof -
    from h have "downloadIfMissing st c version tr =
        fetch st c version (tr @ [CallInstalledVersions c])"
      by (intro downloadIfMissing_fetches) auto
    with h show ?thesis
      by (simp add: fetch_def Let_def IsEmpty_def split: option.splits)
  qed
  have p3: "snd (downloadIfMissing st c [] tr) =
        tr @ [CallInstalledVersions c, CallComponentVersions c, CallSaveVersions c m,
              CallDownloadComponent (ComponentsDir st) (c @ '':'' @ LatestVersion m)] @
        (case DownloadComponent st (ComponentsDir st) (c @ '':'' @ LatestVersion m) of
           None \<Rightarrow> [CallBinaryPath c (LatestVersion m)] | Some e \<Rightarrow> []) \<and>
      filter is_download (snd (downloadIfMissing st c [] tr)) =
        filter is_download tr @
          [CallDownloadComponent (ComponentsDir st) (c @ '':'' @ LatestVersion m)] \<and>
      fst (downloadIfMissing st c [] tr) =
        (case DownloadComponent st (ComponentsDir st) (c @ '':'' @ LatestVersion m) of
           None \<Rightarrow> BinaryPath st c (LatestVersion m) | Some e \<Rightarrow> Inl (Trace e))"
    if h: "InstalledVersions st c = Inr [] \<and>
      ComponentVersions st c = Inr m \<and> SaveVersions st c m = None"
  proof -
    from h have "downloadIfMissing st c [] tr = fetch st c [] (tr @ [CallInstalledVersions c])"
      by (intro downloadIfMissing_fetches) auto
    with h show ?thesis
      by (simp add: fetch_def Let_def IsEmpty_def split: option.splits)
  qed
  have p4: "downloadIfMissing st c version tr =
        (Inl (Trace e1), tr @ [CallInstalledVersions c, CallComponentVersions c]) \<and>
      filter is_download (snd (downloadIfMissing st c version tr)) = filter is_download tr"
    if h: "InstalledVersions st c = Inr versions \<and>
      ((version \<noteq> [] \<and> version \<notin> set versions) \<or> (version = [] \<and> versions = [])) \<and>
      ComponentVersions st c = Inl e1"
  proof -
    from h have "downloadIfMissing st c version tr =
        fetch st c version (tr @ [CallInstalledVersions c])"
      by (intro downloadIfMissing_fetches) auto
    with h show ?thesis by (simp add: fetch_def)
  qed
  have p5: "downloadIfMissing st c version tr =
        (Inl (Trace e2),
         tr @ [CallInstalledVersions c, CallComponentVersions c, CallSaveVersions c m]) \<and>
      filter is_download (snd (downloadIfMissing st c version tr)) = filter is_download tr"
    if h: "InstalledVersions st c = Inr versions \<and>
      ((version \<noteq> [] \<and> version \<notin> set versions) \<or> (version = [] \<and> versions = [])) \<and>
      ComponentVersions st c = Inr m \<and> SaveVersions st c m = Some e2"
  proof -
    from h have "downloadIfMissing st c version tr =
        fetch st c version (tr @ [CallInstalledVersions c])"
      by (intro downloadIfMissing_fetches) auto
    with h show ?thesis by (simp add: fetch_def)
  qed
  show ?thesis
    apply (intro conjI)
    subgoal by (rule impI) (rule p1)
    subgoal by (rule impI) (rule p2)
    subgoal by (rule impI) (rule p3)
    subgoal by (rule impI) (rule p4)
    subgoal by (rule impI) (rule p5)
    done
qed

theorem download_calls_issued_witness:
  "InstalledVersions (store_with [''v5.1.0'']) ''tidb'' = Inr [''v5.1.0''] \<and>
   ''v5.1.0'' \<noteq> [] \<and> ''v5.1.0'' \<in> set [''v5.1.0''] \<and>
   downloadIfMissing (store_with [''v5.1.0'']) ''tidb'' ''v5.1.0'' [] =
     (Inr ''/tiup/components/tidb/v5.1.0/tidb'',
      [CallInstalledVersions ''tidb'', CallBinaryPath ''tidb'' ''v5.1.0'']) \<and>
   ''v5.2.0'' \<noteq> [] \<and> ''v5.2.0'' \<notin> set [''v5.1.0''] \<and>
   ComponentVersions (store_with [''v5.1.0'']) ''tidb'' =
     Inr \<lparr>Versions = [''v5.0.0'', ''v5.1.0'', ''v5.2.0''], Latest = ''v5.2.0''\<rparr> \<and>
   SaveVersions (store_with [''v5.1.0'']) ''tidb''
     \<lparr>Versions = [''v5.0.0'', ''v5.1.0'', ''v5.2.0''], Latest = ''v5.2.0''\<rparr> = None \<and>
   filter is_download (snd (downloadIfMissing (store_with [''v5.1.0'']) ''tidb'' ''v5.2.0'' [])) =
     [CallDownloadComponent ''/tiup/components'' ''tidb:v5.2.0''] \<and>
   fst (downloadIfMissing (store_with [''v5.1.0'']) ''tidb'' ''v5.2.0'' []) =
     Inr ''/tiup/components/tidb/v5.2.0/tidb'' \<and>
   InstalledVersions (store_with []) ''tidb'' = Inr [] \<and>
   ComponentVersions (store_with []) ''tidb'' =
     Inr \<lparr>Versions = [''v5.0.0'', ''v5.1.0'', ''v5.2.0''], Latest = ''v5.2.0''\<rparr> \<and>
   SaveVersions (store_with []) ''tidb''
     \<lparr>Versions = [''v5.0.0'', ''v5.1.0'', ''v5.2.0''], Latest = ''v5.2.0''\<rparr> = None \<and>
   filter is_download (snd (downloadIfMissing (store_with []) ''tidb'' [] [])) =
     [CallDownloadComponent ''/tiup/components'' ''tidb:v5.2.0''] \<and>
   InstalledVersions (unreachable (store_with [''v5.1.0''])) ''tidb'' = Inr [''v5.1.0''] \<and>
   ComponentVersions (unreachable (store_with [''v5.1.0''])) ''tidb'' =
     Inl (Error ''no route to host'') \<and>
   downloadIfMissing (unreachable (store_with [''v5.1.0''])) ''tidb'' ''v5.2.0'' [] =
     (Inl (Trace (Error ''no route to host'')),
      [CallInstalledVersions ''tidb'', CallComponentVersions ''tidb'']) \<and>
   InstalledVersions (cannot_save (store_with [''v5.1.0''])) ''tidb'' = Inr [''v5.1.0''] \<and>
   ComponentVersions (cannot_save (store_with [''v5.1.0''])) ''tidb'' =
     Inr \<lparr>Versions = [''v5.0.0'', ''v5.1.0'', ''v5.2.0''], Latest = ''v5.2.0''\<rparr> \<and>
   SaveVersions (cannot_save (store_with [''v5.1.0''])) ''tidb''
     \<lparr>Versions = [''v5.0.0'', ''v5.1.0'', ''v5.2.0''], Latest = ''v5.2.0''\<rparr> =
     Some (Error ''no space left on device'') \<and>
   downloadIfMissing (cannot_save (store_with [''v5.1.0''])) ''tidb'' ''v5.2.0'' [] =
     (Inl (Trace (Error ''no space left on device'')),
      [CallInstalledVersions ''tidb'', CallComponentVersions ''tidb'',
       CallSaveVersions ''tidb''
         \<lparr>Versions = [''v5.0.0'', ''v5.1.0'', ''v5.2.0''], Latest = ''v5.2.0''\<rparr>])"
proof -
  let ?m = "\<lparr>Versions = [''v5.0.0'', ''v5.1.0'', ''v5.2.0''], Latest = ''v5.2.0''\<rparr>"
  let ?st = "store_with [''v5.1.0'']"
  note ta = download_calls_issued
    [where st = ?st and c = "''tidb''" and versions = "[''v5.1.0'']"
       and version = "''v5.1.0''" and tr = "[]"]
  note tb = download_calls_issued
    [where st = ?st and c = "''tidb''" and versions = "[''v5.1.0'']"
       and version = "''v5.2.0''" and tr = "[]" and m = ?m]
  note tc = download_calls_issued
    [where st = "store_with []" and c = "''tidb''" and tr = "[]" and m = ?m]
  note td = download_calls_issued
    [where st = "unreachable ?st" and c = "''tidb''" and versions = "[''v5.1.0'']"
       and version = "''v5.2.0''" and tr = "[]" and ?e1.0 = "Error ''no route to host''"]
  note te = download_calls_issued
    [where st = "cannot_save ?st" and c = "''tidb''" and versions = "[''v5.1.0'']"
       and version = "''v5.2.0''" and tr = "[]" and m = ?m
       and ?e2.0 = "Error ''no space left on device''"]
  have i1: "InstalledVersions ?st ''tidb'' = Inr [''v5.1.0'']"
    and i0: "InstalledVersions (store_with []) ''tidb'' = Inr []"
    and cv1: "ComponentVersions ?st ''tidb'' = Inr ?m"
    and cv0: "ComponentVersions (store_with []) ''tidb'' = Inr ?m"
    and sv1: "SaveVersions ?st ''tidb'' ?m = None"
    and sv0: "SaveVersions (store_with []) ''tidb'' ?m = None"
    by (simp_all add: store_with_def)
  have iu: "InstalledVersions (unreachable ?st) ''tidb'' = Inr [''v5.1.0'']"
    and cvu: "ComponentVersions (unreachable ?st) ''tidb'' = Inl (Error ''no route to host'')"
    by (simp_all add: store_with_def unreachable_def)
  have isv: "InstalledVersions (cannot_save ?st) ''tidb'' = Inr [''v5.1.0'']"
    and cvs: "ComponentVersions (cannot_save ?st) ''tidb'' = Inr ?m"
    and svs: "SaveVersions (cannot_save ?st) ''tidb'' ?m =
      Some (Error ''no space left on device'')"
    by (simp_all add: store_with_def cannot_save_def)
  have a: "downloadIfMissing ?st ''tidb'' ''v5.1.0'' [] =
     (Inr ''/tiup/components/tidb/v5.1.0/tidb'',
      [CallInstalledVersions ''tidb'', CallBinaryPath ''tidb'' ''v5.1.0''])"
    using ta i1 by (simp add: store_with_def)
  have b: "filter is_download (snd (downloadIfMissing ?st ''tidb'' ''v5.2.0'' [])) =
     [CallDownloadComponent ''/tiup/components'' ''tidb:v5.2.0'']"
    using tb i1 cv1 sv1 by (simp add: store_with_def)
  have b2: "fst (downloadIfMissing ?st ''tidb'' ''v5.2.0'' []) =
     Inr ''/tiup/components/tidb/v5.2.0/tidb''"
    using tb i1 cv1 sv1 by (simp add: store_with_def)
  have c: "filter is_download (snd (downloadIfMissing (store_with []) ''tidb'' [] [])) =
     [CallDownloadComponent ''/tiup/components'' ''tidb:v5.2.0'']"
    using tc i0 cv0 sv0 by (simp add: store_with_def LatestVersion_def)
  have d: "downloadIfMissing (unreachable ?st) ''tidb'' ''v5.2.0'' [] =
     (Inl (Trace (Error ''no route to host'')),
      [CallInstalledVersions ''tidb'', CallComponentVersions ''tidb''])"
    using td iu cvu by simp
  have e: "downloadIfMissing (cannot_save ?st) ''tidb'' ''v5.2.0'' [] =
     (Inl (Trace (Error ''no space left on device'')),
      [CallInstalledVersions ''tidb'', CallComponentVersions ''tidb'',
       CallSaveVersions ''tidb'' ?m])"
    using te isv cvs svs by simp
  from i1 a cv1 sv1 b b2 i0 cv0 sv0 c iu cvu d isv cvs svs e show ?thesis by simp
qed

subsection \<open>Signals\<close>


lemma downloadIfMissing_no_persist:
  "filter is_persist (snd (downloadIfMissing st c v tr)) = filter is_persist tr"
  by (simp add: downloadIfMissing_def fetch_def Let_def split: sum.splits option.splits)


lemma launchComponent_no_persist:
  "filter is_persist (snd (launchComponent st os ctx c v name args tr)) = filter is_persist tr"
  by (simp add: launchComponent_def downloadIfMissing_no_persist split: sum.splits option.splits)


lemma save_meta_persist:
  "filter is_persist (save_meta os p tr) =
     filter is_persist tr @
       CallOpenFile (filepath_Join os (Dir p) (MetaFilename os)) #
       (case OpenFile os (filepath_Join os (Dir p) (MetaFilename os)) of
          None \<Rightarrow> [CallEncode (filepath_Join os (Dir p) (MetaFilename os)) p]
        | Some e \<Rightarrow> [])"
  by (simp add: save_meta_def split: option.splits)

lemma supervise_no_persist:
  "filter is_persist (snd (supervise os c p tr)) = filter is_persist tr"
  by (simp add: supervise_def split: race_outcome.splits option.splits)

lemma cancel_no_persist: "filter is_persist (cancel os child tr) = filter is_persist tr"
  by (simp add: cancel_def split: option.splits)

lemma RunE_launches:
  assumes "args \<noteq> []" and "ParseCompVersion cli (hd args) = (component, version)"
    and "isSupportedComponent cli component"
  shows "RunE cli st os name args tr =
    (fst (launch_and_wait st os Active component version name (tl args) tr),
     cancel os
       (unwaited_child os (fst (launchComponent st os Active component version name (tl args) tr)))
       (snd (launch_and_wait st os Active component version name (tl args) tr)))"
  using assms by (simp add: RunE_def)



lemma colon_cli_parses:
  "ParseCompVersion colon_cli (hd [''tidb:v5.1.0'']) = (''tidb'', ''v5.1.0'')"
  "ParseCompVersion colon_cli (hd [''tikv:v5.1.0'']) = (''tikv'', ''v5.1.0'')"
  "isSupportedComponent colon_cli ''tidb''" "isSupportedComponent colon_cli ''tikv''"
  by (simp_all add: colon_cli_def isSupportedComponent_def HasComponent_def)




subsection \<open>The metadata file\<close>

lemma working_dir_ignores_persistence:
  "working_dir (os\<lparr>OpenFile := ofl, Encode := enc\<rparr>) name = working_dir os name"
  by (simp add: working_dir_def split: option.splits)

lemma overlay_ignores_persistence:
  "overlay (os\<lparr>OpenFile := ofl, Encode := enc\<rparr>) wd = overlay os wd"
  by (simp add: overlay_def)

lemma start_under_ignores_persistence:
  "start_under (os\<lparr>OpenFile := ofl, Encode := enc\<rparr>) ctx b a e d = start_under os ctx b a e d"
  by (simp add: start_under_def split: ctx.splits)

lemma launchComponent_ignores_persistence:
  "launchComponent st (os\<lparr>OpenFile := ofl, Encode := enc\<rparr>) ctx c v name args tr =
   launchComponent st os ctx c v name args tr"
  by (simp add: launchComponent_def working_dir_ignores_persistence
      overlay_ignores_persistence start_under_ignores_persistence
      split: sum.splits option.splits)

lemma supervise_ignores_persistence:
  "fst (supervise (os\<lparr>OpenFile := ofl, Encode := enc\<rparr>) c p tr1) = fst (supervise os c p tr2)"
  by (simp add: supervise_def split: race_outcome.splits option.splits)

lemma launch_and_wait_cases:
  "fst (launch_and_wait st os ctx c v name args tr) =
     (case fst (launchComponent st os ctx c v name args tr) of
        (None, None) \<Rightarrow> Some (Panic ''nil pointer dereference'')
      | (None, Some e) \<Rightarrow> Some e
      | (Some p, Some e) \<Rightarrow> Some e
      | (Some p, None) \<Rightarrow>
          fst (supervise os c p
                 (save_meta os p (snd (launchComponent st os ctx c v name args tr)))))"
  by (simp add: launch_and_wait_def split: prod.splits option.splits)

lemma launch_t1_start_fails:
  "launchComponent (store_with [''v5.1.0'']) (start_fails pido quiet_os) Active c ''v5.1.0''
     ''t1'' [] [] =
     ((Some \<lparr>Component = c, CreatedTime = ''2020-10-30T22:08:25Z'',
             Pid = (case pido of None \<Rightarrow> 0 | Some pid \<Rightarrow> pid),
             Exec = ''/tiup/components/'' @ c @ ''/v5.1.0/'' @ c, Args = [],
             Env = [''TIUP_HOME=/tiup'', ''TIUP_INSTANCE_DATA_DIR=/tiup/data/t1''],
             Dir = ''/tiup/data/t1''\<rparr>, Some (Error ''exec format error'')),
      [CallInstalledVersions c, CallBinaryPath c ''v5.1.0'', CallMkdirAll ''/tiup/data/t1'',
       CallStart (''/tiup/components/'' @ c @ ''/v5.1.0/'' @ c) []
         [''PATH=/usr/bin'', ''TIUP_HOME=/tiup'', ''TIUP_INSTANCE_DATA_DIR=/tiup/data/t1'']
         ''/tiup/data/t1''])"
  by (simp add: launchComponent_def downloadIfMissing_def pick_latest_def needDownload_def
      IsEmpty_def working_dir_def overlay_def quiet_os_def store_with_def start_fails_def
      start_under_def)

text \<open>
  Claim C3, as stated: after a failed start the metadata is persisted regardless. It is
  not when the failed start left no process id: the guard before the write asks for a
  successful launch or a non-zero process id, and the run returns the start error
  without opening the metadata file.
\<close>

theorem start_failure_without_pid_not_persisted:
  "fst (cmd_Start (start_fails None quiet_os) ''/tiup/components/tikv/v5.1.0/tikv'' []
     [''PATH=/usr/bin'', ''TIUP_HOME=/tiup'', ''TIUP_INSTANCE_DATA_DIR=/tiup/data/t1'']
     ''/tiup/data/t1'') = Some (Error ''exec format error'') \<and>
   launch_and_wait (store_with [''v5.1.0'']) (start_fails None quiet_os) Active
     ''tikv'' ''v5.1.0'' ''t1'' [] [] =
     (Some (Error ''exec format error''),
      [CallInstalledVersions ''tikv'', CallBinaryPath ''tikv'' ''v5.1.0'',
       CallMkdirAll ''/tiup/data/t1'',
       CallStart ''/tiup/components/tikv/v5.1.0/tikv'' []
         [''PATH=/usr/bin'', ''TIUP_HOME=/tiup'', ''TIUP_INSTANCE_DATA_DIR=/tiup/data/t1'']
         ''/tiup/data/t1'']) \<and>
   filter is_persist
     (snd (launch_and_wait (store_with [''v5.1.0'']) (start_fails None quiet_os) Active
        ''tikv'' ''v5.1.0'' ''t1'' [] [])) = [] \<and>
   filter is_persist
     (snd (RunE colon_cli (store_with [''v5.1.0'']) (start_fails None quiet_os) ''t1''
        [''tikv:v5.1.0''] [])) = []"
proof -
  have a: "fst (cmd_Start (start_fails None quiet_os) ''/tiup/components/tikv/v5.1.0/tikv'' []
     [''PATH=/usr/bin'', ''TIUP_HOME=/tiup'', ''TIUP_INSTANCE_DATA_DIR=/tiup/data/t1'']
     ''/tiup/data/t1'') = Some (Error ''exec format error'')"
    by (simp add: start_fails_def)
  have b: "launch_and_wait (store_with [''v5.1.0'']) (start_fails None quiet_os) Active
     ''tikv'' ''v5.1.0'' ''t1'' [] [] =
     (Some (Error ''exec format error''),
      [CallInstalledVersions ''tikv'', CallBinaryPath ''tikv'' ''v5.1.0'',
       CallMkdirAll ''/tiup/data/t1'',
       CallStart ''/tiup/components/tikv/v5.1.0/tikv'' []
         [''PATH=/usr/bin'', ''TIUP_HOME=/tiup'', ''TIUP_INSTANCE_DATA_DIR=/tiup/data/t1'']
         ''/tiup/data/t1''])"
    unfolding launch_and_wait_def launch_t1_start_fails by simp
  have "[''tikv:v5.1.0''] \<noteq> []" by simp
  from RunE_launches [OF this colon_cli_parses(2) colon_cli_parses(4)]
  have c: "filter is_persist
     (snd (RunE colon_cli (store_with [''v5.1.0'']) (start_fails None quiet_os) ''t1''
        [''tikv:v5.1.0''] [])) = []"
    by (simp add: cancel_no_persist b)
  show ?thesis unfolding b using a c by simp
qed

text \<open>
  Claim C3, amended. The result of the launch-and-wait block does not depend on what
  opening and writing the metadata file return. A launch error is returned unchanged; an
  error of the wait is returned annotated with the executable and the working directory.
  A start that fails still yields a record with the process id that was observed, zero
  if there was none. For every outcome of the launch, the metadata file is opened
  exactly when the launch returned a record and either succeeded or left a non-zero
  process id in it, and the record is written exactly when the file was opened without
  error; a launch that returns no record touches no metadata file. The command returns
  the result of the block and does nothing more to the metadata file.
\<close>

theorem persistence_never_masks_primary_error:
  "fst (launch_and_wait st (os\<lparr>OpenFile := ofl, Encode := enc\<rparr>) ctx component version name
        args tr) = fst (launch_and_wait st os ctx component version name args tr) \<and>
   (fst (launchComponent st os ctx component version name args tr) = (po, Some e) \<longrightarrow>
      fst (launch_and_wait st os ctx component version name args tr) = Some e) \<and>
   (fst (launchComponent st os ctx component version name args tr) = (Some p, None) \<and>
    race os = ExitFirst (Some e) \<longrightarrow>
      fst (launch_and_wait st os ctx component version name args tr) =
        Some (Annotatef e (Exec p) (Dir p))) \<and>
   (fst (downloadIfMissing st component version tr) = Inr binPath \<and>
    working_dir os name = Some wd \<and> MkdirAll os wd = None \<and>
    start_under os ctx binPath args (Environ os @ overlay os wd) wd = (Some e, pido) \<longrightarrow>
      (\<exists>q. fst (launchComponent st os ctx component version name args tr) = (Some q, Some e) \<and>
           Pid q = (case pido of None \<Rightarrow> 0 | Some pid \<Rightarrow> pid))) \<and>
   (fst (launchComponent st os ctx component version name args tr) = (po, err) \<longrightarrow>
      filter is_persist (snd (launch_and_wait st os ctx component version name args tr)) =
        filter is_persist tr @
          (case po of
             None \<Rightarrow> []
           | Some q \<Rightarrow>
               if err = None \<or> Pid q \<noteq> 0
               then CallOpenFile (filepath_Join os (Dir q) (MetaFilename os)) #
                    (case OpenFile os (filepath_Join os (Dir q) (MetaFilename os)) of
                       None \<Rightarrow> [CallEncode (filepath_Join os (Dir q) (MetaFilename os)) q]
                     | Some e' \<Rightarrow> [])
               else [])) \<and>
   (args' \<noteq> [] \<and> ParseCompVersion cli (hd args') = (component, version) \<and>
    isSupportedComponent cli component \<longrightarrow>
      fst (RunE cli st os name args' tr) =
        fst (launch_and_wait st os Active component version name (tl args') tr) \<and>
      filter is_persist (snd (RunE cli st os name args' tr)) =
        filter is_persist
          (snd (launch_and_wait st os Active component version name (tl args') tr)))"
proof (intro conjI impI)
  show "fst (launch_and_wait st (os\<lparr>OpenFile := ofl, Encode := enc\<rparr>) ctx component version name
        args tr) = fst (launch_and_wait st os ctx component version name args tr)"
    unfolding launch_and_wait_cases launchComponent_ignores_persistence
    by (simp add: supervise_ignores_persistence split: prod.splits option.splits)
next
  assume "fst (launchComponent st os ctx component version name args tr) = (po, Some e)"
  then show "fst (launch_and_wait st os ctx component version name args tr) = Some e"
    unfolding launch_and_wait_cases by (simp split: option.splits)
next
  assume "fst (launchComponent st os ctx component version name args tr) = (Some p, None) \<and>
    race os = ExitFirst (Some e)"
  then show "fst (launch_and_wait st os ctx component version name args tr) =
        Some (Annotatef e (Exec p) (Dir p))"
    unfolding launch_and_wait_cases by (simp add: supervise_def)
next
  assume "fst (downloadIfMissing st component version tr) = Inr binPath \<and>
    working_dir os name = Some wd \<and> MkdirAll os wd = None \<and>
    start_under os ctx binPath args (Environ os @ overlay os wd) wd = (Some e, pido)"
  then show "\<exists>q. fst (launchComponent st os ctx component version name args tr) =
      (Some q, Some e) \<and> Pid q = (case pido of None \<Rightarrow> 0 | Some pid \<Rightarrow> pid)"
    by (simp add: launchComponent_def)
next
  assume h: "fst (launchComponent st os ctx component version name args tr) = (po, err)"
  show "filter is_persist (snd (launch_and_wait st os ctx component version name args tr)) =
        filter is_persist tr @
          (case po of
             None \<Rightarrow> []
           | Some q \<Rightarrow>
               if err = None \<or> Pid q \<noteq> 0
               then CallOpenFile (filepath_Join os (Dir q) (MetaFilename os)) #
                    (case OpenFile os (filepath_Join os (Dir q) (MetaFilename os)) of
                       None \<Rightarrow> [CallEncode (filepath_Join os (Dir q) (MetaFilename os)) q]
                     | Some e' \<Rightarrow> [])
               else [])"
  proof (cases po)
    case None
    with h show ?thesis
      by (cases err) (simp_all add: launch_and_wait_def launchComponent_no_persist)
  next
    case (Some q)
    with h show ?thesis
      by (cases err)
         (simp_all add: launch_and_wait_def supervise_no_persist save_meta_persist
            launchComponent_no_persist)
  qed
next
  assume h: "args' \<noteq> [] \<and> ParseCompVersion cli (hd args') = (component, version) \<and>
    isSupportedComponent cli component"
  then have run: "RunE cli st os name args' tr =
    (fst (launch_and_wait st os Active component version name (tl args') tr),
     cancel os
       (unwaited_child os
          (fst (launchComponent st os Active component version name (tl args') tr)))
       (snd (launch_and_wait st os Active component version name (tl args') tr)))"
    by (intro RunE_launches) simp_all
  show "fst (RunE cli st os name args' tr) =
        fst (launch_and_wait st os Active component version name (tl args') tr)"
    unfolding run by simp
  show "filter is_persist (snd (RunE cli st os name args' tr)) =
        filter is_persist
          (snd (launch_and_wait st os Active component version name (tl args') tr))"
    unfolding run by (simp add: cancel_no_persist)
qed

lemma launch_t1_read_only_start_fails:
  "launchComponent (store_with [''v5.1.0'']) (read_only (start_fails (Some 4242) quiet_os))
     Active ''tikv'' ''v5.1.0'' ''t1'' [] [] =
     ((Some \<lparr>Component = ''tikv'', CreatedTime = ''2020-10-30T22:08:25Z'', Pid = 4242,
             Exec = ''/tiup/components/tikv/v5.1.0/tikv'', Args = [],
             Env = [''TIUP_HOME=/tiup'', ''TIUP_INSTANCE_DATA_DIR=/tiup/data/t1''],
             Dir = ''/tiup/data/t1''\<rparr>, Some (Error ''exec format error'')),
      [CallInstalledVersions ''tikv'', CallBinaryPath ''tikv'' ''v5.1.0'',
       CallMkdirAll ''/tiup/data/t1'',
       CallStart ''/tiup/components/tikv/v5.1.0/tikv'' []
         [''PATH=/usr/bin'', ''TIUP_HOME=/tiup'', ''TIUP_INSTANCE_DATA_DIR=/tiup/data/t1'']
         ''/tiup/data/t1''])"
  by (simp add: launchComponent_def downloadIfMissing_def pick_latest_def needDownload_def
      IsEmpty_def working_dir_def overlay_def quiet_os_def store_with_def start_fails_def
      read_only_def start_under_def)

lemma launch_t1_child_exits:
  "launchComponent (store_with [''v5.1.0'']) (child_exits w quiet_os)
     Active ''tikv'' ''v5.1.0'' ''t1'' [] [] =
     ((Some \<lparr>Component = ''tikv'', CreatedTime = ''2020-10-30T22:08:25Z'', Pid = 4242,
             Exec = ''/tiup/components/tikv/v5.1.0/tikv'', Args = [],
             Env = [''TIUP_HOME=/tiup'', ''TIUP_INSTANCE_DATA_DIR=/tiup/data/t1''],
             Dir = ''/tiup/data/t1''\<rparr>, None),
      [CallInstalledVersions ''tikv'', CallBinaryPath ''tikv'' ''v5.1.0'',
       CallMkdirAll ''/tiup/data/t1'',
       CallStart ''/tiup/components/tikv/v5.1.0/tikv'' []
         [''PATH=/usr/bin'', ''TIUP_HOME=/tiup'', ''TIUP_INSTANCE_DATA_DIR=/tiup/data/t1'']
         ''/tiup/data/t1''])"
  by (simp add: launchComponent_def downloadIfMissing_def pick_latest_def needDownload_def
      IsEmpty_def working_dir_def overlay_def quiet_os_def store_with_def child_exits_def
      start_under_def)

lemma launch_t1_read_only_child_exits:
  "launchComponent (store_with [''v5.1.0'']) (read_only (child_exits w quiet_os))
     Active ''tikv'' ''v5.1.0'' ''t1'' [] [] =
     ((Some \<lparr>Component = ''tikv'', CreatedTime = ''2020-10-30T22:08:25Z'', Pid = 4242,
             Exec = ''/tiup/components/tikv/v5.1.0/tikv'', Args = [],
             Env = [''TIUP_HOME=/tiup'', ''TIUP_INSTANCE_DATA_DIR=/tiup/data/t1''],
             Dir = ''/tiup/data/t1''\<rparr>, None),
      [CallInstalledVersions ''tikv'', CallBinaryPath ''tikv'' ''v5.1.0'',
       CallMkdirAll ''/tiup/data/t1'',
       CallStart ''/tiup/components/tikv/v5.1.0/tikv'' []
         [''PATH=/usr/bin'', ''TIUP_HOME=/tiup'', ''TIUP_INSTANCE_DATA_DIR=/tiup/data/t1'']
         ''/tiup/data/t1''])"
  by (simp add: launchComponent_def downloadIfMissing_def pick_latest_def needDownload_def
      IsEmpty_def working_dir_def overlay_def quiet_os_def store_with_def child_exits_def
      read_only_def start_under_def)

lemma launch_unreachable:
  "launchComponent (unreachable (store_with [''v5.1.0''])) quiet_os Active ''tikv'' ''v5.2.0''
     ''t1'' [] [] =
     ((None, Some (Trace (Error ''no route to host''))),
      [CallInstalledVersions ''tikv'', CallComponentVersions ''tikv''])"
  by (simp add: launchComponent_def downloadIfMissing_def pick_latest_def needDownload_def
      IsEmpty_def fetch_def unreachable_def store_with_def)

theorem persistence_never_masks_primary_error_witness:
  "OpenFile (read_only (start_fails (Some 4242) quiet_os)) ''/tiup/data/t1/tiup_process_meta'' =
     Some (Error ''read-only file system'') \<and>
   fst (downloadIfMissing (store_with [''v5.1.0'']) ''tikv'' ''v5.1.0'' []) =
     Inr ''/tiup/components/tikv/v5.1.0/tikv'' \<and>
   working_dir (read_only (start_fails (Some 4242) quiet_os)) ''t1'' = Some ''/tiup/data/t1'' \<and>
   MkdirAll (read_only (start_fails (Some 4242) quiet_os)) ''/tiup/data/t1'' = None \<and>
   start_under (read_only (start_fails (Some 4242) quiet_os)) Active
     ''/tiup/components/tikv/v5.1.0/tikv'' []
     (Environ (read_only (start_fails (Some 4242) quiet_os)) @
      overlay (read_only (start_fails (Some 4242) quiet_os)) ''/tiup/data/t1'')
     ''/tiup/data/t1'' = (Some (Error ''exec format error''), Some 4242) \<and>
   (\<exists>q. fst (launchComponent (store_with [''v5.1.0''])
            (read_only (start_fails (Some 4242) quiet_os)) Active ''tikv'' ''v5.1.0'' ''t1''
            [] []) = (Some q, Some (Error ''exec format error'')) \<and> Pid q = 4242) \<and>
   fst (launch_and_wait (store_with [''v5.1.0''])
          (read_only (start_fails (Some 4242) quiet_os)) Active ''tikv'' ''v5.1.0'' ''t1''
          [] []) = Some (Error ''exec format error'') \<and>
   filter is_persist
     (snd (launch_and_wait (store_with [''v5.1.0''])
             (read_only (start_fails (Some 4242) quiet_os)) Active ''tikv'' ''v5.1.0'' ''t1''
             [] [])) = [CallOpenFile ''/tiup/data/t1/tiup_process_meta''] \<and>
   race (read_only (child_exits (Some (Error ''exit status 1'')) quiet_os)) =
     ExitFirst (Some (Error ''exit status 1'')) \<and>
   fst (launch_and_wait (store_with [''v5.1.0''])
          (read_only (child_exits (Some (Error ''exit status 1'')) quiet_os)) Active
          ''tikv'' ''v5.1.0'' ''t1'' [] []) =
     Some (Annotatef (Error ''exit status 1'') ''/tiup/components/tikv/v5.1.0/tikv''
             ''/tiup/data/t1'') \<and>
   filter is_persist
     (snd (launch_and_wait (store_with [''v5.1.0''])
             (child_exits (Some (Error ''exit status 1'')) quiet_os) Active
             ''tikv'' ''v5.1.0'' ''t1'' [] [])) =
     [CallOpenFile ''/tiup/data/t1/tiup_process_meta'',
      CallEncode ''/tiup/data/t1/tiup_process_meta''
        \<lparr>Component = ''tikv'', CreatedTime = ''2020-10-30T22:08:25Z'', Pid = 4242,
           Exec = ''/tiup/components/tikv/v5.1.0/tikv'', Args = [],
           Env = [''TIUP_HOME=/tiup'', ''TIUP_INSTANCE_DATA_DIR=/tiup/data/t1''],
           Dir = ''/tiup/data/t1''\<rparr>] \<and>
   fst (launchComponent (unreachable (store_with [''v5.1.0''])) quiet_os Active ''tikv''
          ''v5.2.0'' ''t1'' [] []) = (None, Some (Trace (Error ''no route to host''))) \<and>
   filter is_persist
     (snd (launch_and_wait (unreachable (store_with [''v5.1.0''])) quiet_os Active ''tikv''
             ''v5.2.0'' ''t1'' [] [])) = [] \<and>
   [''tikv:v5.1.0''] \<noteq> [] \<and>
   ParseCompVersion colon_cli (hd [''tikv:v5.1.0'']) = (''tikv'', ''v5.1.0'') \<and>
   isSupportedComponent colon_cli ''tikv'' \<and>
   fst (RunE colon_cli (store_with [''v5.1.0'']) (read_only (start_fails (Some 4242) quiet_os))
          ''t1'' [''tikv:v5.1.0''] []) = Some (Error ''exec format error'')"
proof -
  let ?st = "store_with [''v5.1.0'']"
  let ?os1 = "read_only (start_fails (Some 4242) quiet_os)"
  let ?os2 = "read_only (child_exits (Some (Error ''exit status 1'')) quiet_os)"
  let ?os3 = "child_exits (Some (Error ''exit status 1'')) quiet_os"
  let ?p = "\<lparr>Component = ''tikv'', CreatedTime = ''2020-10-30T22:08:25Z'', Pid = 4242,
             Exec = ''/tiup/components/tikv/v5.1.0/tikv'', Args = [],
             Env = [''TIUP_HOME=/tiup'', ''TIUP_INSTANCE_DATA_DIR=/tiup/data/t1''],
             Dir = ''/tiup/data/t1''\<rparr>"
  note t1 = persistence_never_masks_primary_error
    [where st = ?st and os = ?os1 and ctx = Active and component = "''tikv''"
       and version = "''v5.1.0''"
       and name = "''t1''" and args = "[]" and tr = "[]" and po = "Some ?p"
       and e = "Error ''exec format error''" and p = ?p
       and binPath = "''/tiup/components/tikv/v5.1.0/tikv''" and wd = "''/tiup/data/t1''"
       and pido = "Some 4242" and err = "Some (Error ''exec format error'')"
       and args' = "[''tikv:v5.1.0'']" and cli = colon_cli]
  note t2 = persistence_never_masks_primary_error
    [where st = ?st and os = ?os2 and ctx = Active and component = "''tikv''"
       and version = "''v5.1.0''"
       and name = "''t1''" and args = "[]" and tr = "[]"
       and e = "Error ''exit status 1''" and p = ?p]
  note t3 = persistence_never_masks_primary_error
    [where st = ?st and os = ?os3 and ctx = Active and component = "''tikv''"
       and version = "''v5.1.0''"
       and name = "''t1''" and args = "[]" and tr = "[]" and po = "Some ?p" and err = None]
  note t4 = persistence_never_masks_primary_error
    [where st = "unreachable ?st" and os = quiet_os and ctx = Active and component = "''tikv''"
       and version = "''v5.2.0''"
       and name = "''t1''" and args = "[]" and tr = "[]" and po = None
       and err = "Some (Trace (Error ''no route to host''))"]
  have h0: "OpenFile ?os1 ''/tiup/data/t1/tiup_process_meta'' =
      Some (Error ''read-only file system'')"
    by (simp add: read_only_def)
  have h1: "fst (downloadIfMissing ?st ''tikv'' ''v5.1.0'' []) =
      Inr ''/tiup/components/tikv/v5.1.0/tikv''"
    by (simp add: downloadIfMissing_def pick_latest_def needDownload_def IsEmpty_def
        store_with_def)
  have h2: "working_dir ?os1 ''t1'' = Some ''/tiup/data/t1''"
    by (simp add: working_dir_def read_only_def start_fails_def quiet_os_def)
  have h3: "MkdirAll ?os1 ''/tiup/data/t1'' = None"
    by (simp add: read_only_def start_fails_def quiet_os_def)
  have h4: "start_under ?os1 Active ''/tiup/components/tikv/v5.1.0/tikv'' []
      (Environ ?os1 @ overlay ?os1 ''/tiup/data/t1'') ''/tiup/data/t1'' =
      (Some (Error ''exec format error''), Some 4242)"
    by (simp add: read_only_def start_fails_def start_under_def)
  have l1: "fst (launchComponent ?st ?os1 Active ''tikv'' ''v5.1.0'' ''t1'' [] []) =
      (Some ?p, Some (Error ''exec format error''))"
    by (simp add: launch_t1_read_only_start_fails)
  have l2: "fst (launchComponent ?st ?os2 Active ''tikv'' ''v5.1.0'' ''t1'' [] []) =
      (Some ?p, None)"
    by (simp add: launch_t1_read_only_child_exits)
  have l3: "fst (launchComponent ?st ?os3 Active ''tikv'' ''v5.1.0'' ''t1'' [] []) =
      (Some ?p, None)"
    by (simp add: launch_t1_child_exits)
  have l4: "fst (launchComponent (unreachable ?st) quiet_os Active ''tikv'' ''v5.2.0'' ''t1''
      [] []) = (None, Some (Trace (Error ''no route to host'')))"
    by (simp add: launch_unreachable)
  have r2: "race ?os2 = ExitFirst (Some (Error ''exit status 1''))"
    by (simp add: read_only_def child_exits_def)
  have c4: "\<exists>q. fst (launchComponent ?st ?os1 Active ''tikv'' ''v5.1.0'' ''t1'' [] []) =
      (Some q, Some (Error ''exec format error'')) \<and> Pid q = 4242"
    using t1 h1 h2 h3 h4 by simp
  have c2: "fst (launch_and_wait ?st ?os1 Active ''tikv'' ''v5.1.0'' ''t1'' [] []) =
      Some (Error ''exec format error'')"
    using t1 l1 by blast
  have c5: "filter is_persist
      (snd (launch_and_wait ?st ?os1 Active ''tikv'' ''v5.1.0'' ''t1'' [] [])) =
      [CallOpenFile ''/tiup/data/t1/tiup_process_meta'']"
    using t1 l1 by (simp add: read_only_def start_fails_def quiet_os_def)
  have c3: "fst (launch_and_wait ?st ?os2 Active ''tikv'' ''v5.1.0'' ''t1'' [] []) =
      Some (Annotatef (Error ''exit status 1'') ''/tiup/components/tikv/v5.1.0/tikv''
              ''/tiup/data/t1'')"
    using t2 l2 r2 by simp
  have c6: "filter is_persist
      (snd (launch_and_wait ?st ?os3 Active ''tikv'' ''v5.1.0'' ''t1'' [] [])) =
      [CallOpenFile ''/tiup/data/t1/tiup_process_meta'',
       CallEncode ''/tiup/data/t1/tiup_process_meta'' ?p]"
    using t3 l3 by (simp add: child_exits_def quiet_os_def)
  have c7: "filter is_persist
      (snd (launch_and_wait (unreachable ?st) quiet_os Active ''tikv'' ''v5.2.0'' ''t1''
         [] [])) = []"
    using t4 l4 by simp
  have ne: "[''tikv:v5.1.0''] \<noteq> []" by simp
  have c8: "fst (RunE colon_cli ?st ?os1 ''t1'' [''tikv:v5.1.0''] []) =
      Some (Error ''exec format error'')"
    using t1 ne colon_cli_parses(2) colon_cli_parses(4) c2 by simp
  from h0 h1 h2 h3 h4 c4 c2 c5 r2 c3 c6 l4 c7 ne colon_cli_parses(2) colon_cli_parses(4) c8
  show ?thesis by (intro conjI)
qed

end
